theory Spec2Isabelle
  imports Complex_Main
begin

section \<open>Values, messages and rows\<close>

text \<open>
  The chat route (\<^verbatim>\<open>app/(chat)/api/chat/route.ts\<close>) handles JavaScript values that it
  never inspects: tool arguments, tool results, the parts of a structured user message.
  They are trees of this type. \<^verbatim>\<open>JSON.stringify\<close> belongs to the runtime, so the functions
  that call it take it as the parameter \<open>stringify\<close>.
\<close>

datatype jsval =
    JUndefined
  | JNull
  | JBool bool
  | JNum rat
  | JStr string
  | JArr "jsval list"
  | JObj "(string \<times> jsval) list"

text \<open>
  \<^verbatim>\<open>CoreMessage\<close> of the SDK is a union discriminated by \<^verbatim>\<open>role\<close>; the role fixes the
  shape of \<^verbatim>\<open>content\<close>. An assistant part is a text part or a tool call; the field
  \<^verbatim>\<open>type\<close> of a tool result is optional for the code (\<^verbatim>\<open>content.type || 'tool-result'\<close>).
\<close>

datatype assistant_part =
    TextPart (part_text: string)
  | ToolCallPart (part_toolCallId: string) (part_toolName: string) (part_args: jsval)

record tool_result_part =
  tr_type :: "string option"
  tr_toolCallId :: string
  tr_toolName :: string
  tr_result :: jsval

datatype user_content = UserText string | UserParts "jsval list"

datatype assistant_content = AssistantText string | AssistantParts "assistant_part list"

datatype core_message =
    SystemMessage string
  | UserMessage user_content
  | AssistantMessage assistant_content
  | ToolMessage "tool_result_part list"

fun message_role :: "core_message \<Rightarrow> string" where
  "message_role (SystemMessage _) = ''system''"
| "message_role (UserMessage _) = ''user''"
| "message_role (AssistantMessage _) = ''assistant''"
| "message_role (ToolMessage _) = ''tool''"

fun part_type :: "assistant_part \<Rightarrow> string" where
  "part_type (TextPart _) = ''text''"
| "part_type (ToolCallPart _ _ _) = ''tool-call''"

section \<open>The message codec: formatMessageContent\<close>

text \<open>\<^verbatim>\<open>a || b\<close> on an optional string: \<open>b\<close> when \<open>a\<close> is undefined or empty.\<close>

fun or_default :: "string option \<Rightarrow> string \<Rightarrow> string" where
  "or_default None d = d"
| "or_default (Some s) d = (if s = [] then d else s)"

text \<open>The two arrow functions that \<^verbatim>\<open>formatMessageContent\<close> maps over the parts.\<close>

definition tool_result_element :: "tool_result_part \<Rightarrow> jsval" where
  "tool_result_element content =
     JObj [(''type'', JStr (or_default (tr_type content) ''tool-result'')),
           (''toolCallId'', JStr (tr_toolCallId content)),
           (''toolName'', JStr (tr_toolName content)),
           (''result'', tr_result content)]"

definition assistant_element :: "assistant_part \<Rightarrow> jsval" where
  "assistant_element content =
     (if part_type content = ''text''
      then JObj [(''type'', JStr ''text''), (''text'', JStr (part_text content))]
      else JObj [(''type'', JStr ''tool-call''),
                 (''toolCallId'', JStr (part_toolCallId content)),
                 (''toolName'', JStr (part_toolName content)),
                 (''args'', part_args content)])"

text \<open>
  The tests on \<^verbatim>\<open>message.role\<close> in the order of the source: user, tool, assistant, and
  the empty string for every other role.
\<close>

fun formatMessageContent :: "(jsval \<Rightarrow> string) \<Rightarrow> core_message \<Rightarrow> string" where
  "formatMessageContent stringify (UserMessage c) =
     (case c of UserText s \<Rightarrow> s | UserParts ps \<Rightarrow> stringify (JArr ps))"
| "formatMessageContent stringify (ToolMessage ps) =
     stringify (JArr (map tool_result_element ps))"
| "formatMessageContent stringify (AssistantMessage c) =
     (case c of
        AssistantText s \<Rightarrow> stringify (JArr [JObj [(''type'', JStr ''text''), (''text'', JStr s)]])
      | AssistantParts ps \<Rightarrow> stringify (JArr (map assistant_element ps)))"
| "formatMessageContent stringify (SystemMessage s) = ''''"

text \<open>
  The normal form as section 4.1 of the specification words it, one function per kind of
  element, to compare with the code.
\<close>

definition spec_text_element :: "string \<Rightarrow> jsval" where
  "spec_text_element t = JObj [(''type'', JStr ''text''), (''text'', JStr t)]"

definition spec_tool_call_element :: "string \<Rightarrow> string \<Rightarrow> jsval \<Rightarrow> jsval" where
  "spec_tool_call_element callId name args =
     JObj [(''type'', JStr ''tool-call''), (''toolCallId'', JStr callId),
           (''toolName'', JStr name), (''args'', args)]"

definition spec_tool_result_element :: "string \<Rightarrow> string \<Rightarrow> string \<Rightarrow> jsval \<Rightarrow> jsval" where
  "spec_tool_result_element ty callId name res =
     JObj [(''type'', JStr ty), (''toolCallId'', JStr callId),
           (''toolName'', JStr name), (''result'', res)]"

fun spec_assistant_element :: "assistant_part \<Rightarrow> jsval" where
  "spec_assistant_element (TextPart t) = spec_text_element t"
| "spec_assistant_element (ToolCallPart callId name args) = spec_tool_call_element callId name args"

fun spec_tool_result :: "tool_result_part \<Rightarrow> jsval" where
  "spec_tool_result p =
     (case tr_type p of
        None \<Rightarrow> spec_tool_result_element ''tool-result'' (tr_toolCallId p) (tr_toolName p) (tr_result p)
      | Some [] \<Rightarrow> spec_tool_result_element ''tool-result'' (tr_toolCallId p) (tr_toolName p) (tr_result p)
      | Some (c # cs) \<Rightarrow> spec_tool_result_element (c # cs) (tr_toolCallId p) (tr_toolName p) (tr_result p))"

fun spec_elements :: "('a \<Rightarrow> jsval) \<Rightarrow> 'a list \<Rightarrow> jsval list" where
  "spec_elements f [] = []"
| "spec_elements f (p # ps) = f p # spec_elements f ps"

section \<open>Rows, events and the collaborators of the route\<close>

text \<open>
  What \<^verbatim>\<open>throw\<close> throws: an \<^verbatim>\<open>Error\<close> with its message, or any other value
  (\<^verbatim>\<open>error instanceof Error\<close> is false for those).
\<close>

datatype exn = Error string | Thrown jsval

record user =
  user_id :: string

record model =
  model_id :: string
  model_apiIdentifier :: string

record chat =
  chat_id :: string
  chat_user_id :: string
  chat_title :: string

record chat_args =
  sc_id :: string
  sc_userId :: string
  sc_title :: string

record message_row =
  msg_id :: string
  msg_chat_id :: string
  msg_role :: string
  msg_content :: string
  msg_created_at :: string

record document =
  doc_id :: string
  doc_title :: string
  doc_content :: "string option"
  doc_created_at :: string
  doc_user_id :: string

record document_args =
  sd_id :: string
  sd_title :: string
  sd_content :: string
  sd_userId :: string

record suggestion =
  sg_originalText :: string
  sg_suggestedText :: string
  sg_description :: string
  sg_id :: string
  sg_documentId :: string
  sg_isResolved :: bool

text \<open>\<^verbatim>\<open>{...suggestion, userId, createdAt, documentCreatedAt}\<close>\<close>

record suggestion_row = suggestion +
  sr_userId :: string
  sr_createdAt :: string
  sr_documentCreatedAt :: string

text \<open>An element of the structured generation of \<^verbatim>\<open>requestSuggestions\<close> (its zod schema).\<close>

record element =
  el_originalSentence :: string
  el_suggestedSentence :: string
  el_description :: string

text \<open>What \<^verbatim>\<open>streamingData.append\<close> is given: \<^verbatim>\<open>{type, content}\<close>.\<close>

datatype event_content = TextContent string | SuggestionContent suggestion

record stream_event =
  ev_type :: string
  ev_content :: event_content

text \<open>
  A chunk of \<^verbatim>\<open>fullStream\<close>: a text delta, or a chunk of another type (named). An
  asynchronous stream is the list of what it yields and how it ends: normally, or by
  throwing into the \<^verbatim>\<open>for await\<close> that reads it.
\<close>

datatype chunk = TextDelta string | OtherChunk string

type_synonym 'a async_stream = "'a list \<times> exn option"

text \<open>
  The input of a nested generation: \<^verbatim>\<open>prompt\<close>, or a list of user messages
  (\<^verbatim>\<open>updateDocument\<close> passes the description and the current content, which may be null).
\<close>

datatype nested_input = Prompt string | UserTexts "string option list"

text \<open>
  The tools and their validated arguments (the zod schemas of the four tools), and a
  tool call of the model.
\<close>

datatype tool_input =
    GetWeather rat rat
  | CreateDocument string
  | UpdateDocument string string
  | RequestSuggestions string

record tool_call =
  call_id :: string
  call_input :: tool_input

datatype model_reply = Reply string "tool_call list" | ProviderFailure exn

text \<open>
  Everything the route does to the outside world, in the order it does it: writes to the
  store, operations on the \<^verbatim>\<open>StreamData\<close> multiplexer, calls of the language model, the
  weather request, and \<^verbatim>\<open>console.error\<close>.
\<close>

datatype effect =
    CallSaveChat chat_args
  | CallSaveMessages string "message_row list"
  | CallDeleteChatById string string
  | CallSaveDocument document_args
  | CallSaveSuggestions "suggestion_row list"
  | NewStreamData
  | Append stream_event
  | AppendMessageAnnotation string
  | Close
  | CallGenerateTitle core_message
  | Generate string string "core_message list"
  | CallStreamText string string nested_input
  | CallStreamObject string string string
  | CallFetchWeather rat rat
  | ConsoleError string exn

text \<open>
  The collaborators that are not part of the route: the session, the model table
  (\<^verbatim>\<open>@/ai/models\<close>), the prompts, the helpers of \<^verbatim>\<open>@/lib/utils\<close>, the queries and
  mutations of \<^verbatim>\<open>@/db\<close>, the title action, the language model and the weather service.
  Each is a parameter. A collaborator with an outcome that may change during the turn
  (the store, the model, the network) is a function of the effects so far; a mutation
  answers \<open>None\<close> on success and the exception it throws otherwise.
\<close>

record env =
  auth_user :: "user option"
  auth_error :: bool
  models :: "model list"
  systemPrompt :: string
  JSON_stringify :: "jsval \<Rightarrow> string"
  lib_convertToCoreMessages :: "jsval list \<Rightarrow> core_message list"
  lib_getMostRecentUserMessage :: "core_message list \<Rightarrow> core_message option"
  lib_sanitizeResponseMessages :: "core_message list \<Rightarrow> core_message list"
  uuid_source :: "nat \<Rightarrow> string"
  clock :: "nat \<Rightarrow> string"
  db_getChatById :: "effect list \<Rightarrow> string \<Rightarrow> exn + chat option"
  db_getDocumentById :: "effect list \<Rightarrow> string \<Rightarrow> exn + document option"
  db_saveChat :: "effect list \<Rightarrow> chat_args \<Rightarrow> exn option"
  db_saveMessages :: "effect list \<Rightarrow> string \<Rightarrow> message_row list \<Rightarrow> exn option"
  db_deleteChatById :: "effect list \<Rightarrow> string \<Rightarrow> string \<Rightarrow> exn option"
  db_saveDocument :: "effect list \<Rightarrow> document_args \<Rightarrow> exn option"
  db_saveSuggestions :: "effect list \<Rightarrow> suggestion_row list \<Rightarrow> exn option"
  title_action :: "effect list \<Rightarrow> core_message \<Rightarrow> exn + string"
  language_model :: "effect list \<Rightarrow> string \<Rightarrow> string \<Rightarrow> core_message list \<Rightarrow> model_reply"
  text_stream :: "effect list \<Rightarrow> string \<Rightarrow> string \<Rightarrow> nested_input \<Rightarrow> chunk async_stream"
  element_stream :: "effect list \<Rightarrow> string \<Rightarrow> string \<Rightarrow> string \<Rightarrow> element async_stream"
  weather_service :: "effect list \<Rightarrow> rat \<Rightarrow> rat \<Rightarrow> exn + jsval"

section \<open>Programs: state, exceptions, sequencing\<close>

text \<open>
  The state of a turn: the effects so far, and how many identifiers and clock readings
  have been handed out (\<^verbatim>\<open>generateUUID()\<close>, \<^verbatim>\<open>new Date()\<close>).
\<close>

record state =
  effects :: "effect list"
  uuids_taken :: nat
  clock_reads :: nat

datatype 'a outcome = Return 'a | Throw exn

type_synonym 'a prog = "state \<Rightarrow> 'a outcome \<times> state"

definition ret :: "'a \<Rightarrow> 'a prog" where
  "ret x s = (Return x, s)"

definition throw :: "exn \<Rightarrow> 'a prog" where
  "throw e s = (Throw e, s)"

definition await :: "'a prog \<Rightarrow> ('a \<Rightarrow> 'b prog) \<Rightarrow> 'b prog" where
  "await m f s = (case m s of (Return x, s') \<Rightarrow> f x s' | (Throw e, s') \<Rightarrow> (Throw e, s'))"

definition try_catch :: "'a prog \<Rightarrow> (exn \<Rightarrow> 'a prog) \<Rightarrow> 'a prog" where
  "try_catch m h s = (case m s of (Return x, s') \<Rightarrow> (Return x, s') | (Throw e, s') \<Rightarrow> h e s')"

definition emit :: "effect \<Rightarrow> unit prog" where
  "emit e s = (Return (), s\<lparr>effects := effects s @ [e]\<rparr>)"

definition generateUUID :: "env \<Rightarrow> string prog" where
  "generateUUID env s = (Return (uuid_source env (uuids_taken s)), s\<lparr>uuids_taken := Suc (uuids_taken s)\<rparr>)"

definition now :: "env \<Rightarrow> string prog" where
  "now env s = (Return (clock env (clock_reads s)), s\<lparr>clock_reads := Suc (clock_reads s)\<rparr>)"

text \<open>A mutation: the call is recorded, then it succeeds or throws as the store decides.\<close>

definition mutation :: "effect \<Rightarrow> (effect list \<Rightarrow> exn option) \<Rightarrow> unit prog" where
  "mutation call answer s =
     (case answer (effects s) of
        None \<Rightarrow> (Return (), s\<lparr>effects := effects s @ [call]\<rparr>)
      | Some e \<Rightarrow> (Throw e, s\<lparr>effects := effects s @ [call]\<rparr>))"

text \<open>A query or a request: recorded when \<open>call\<close> is given, answered from the effects so far.\<close>

definition request :: "effect option \<Rightarrow> (effect list \<Rightarrow> exn + 'a) \<Rightarrow> 'a prog" where
  "request call answer s =
     (let s' = (case call of None \<Rightarrow> s | Some c \<Rightarrow> s\<lparr>effects := effects s @ [c]\<rparr>)
      in case answer (effects s) of Inr x \<Rightarrow> (Return x, s') | Inl e \<Rightarrow> (Throw e, s'))"

definition getChatById :: "env \<Rightarrow> string \<Rightarrow> chat option prog" where
  "getChatById env chatId = request None (\<lambda>h. db_getChatById env h chatId)"

definition getDocumentById :: "env \<Rightarrow> string \<Rightarrow> document option prog" where
  "getDocumentById env docId = request None (\<lambda>h. db_getDocumentById env h docId)"

definition saveChat :: "env \<Rightarrow> chat_args \<Rightarrow> unit prog" where
  "saveChat env a = mutation (CallSaveChat a) (\<lambda>h. db_saveChat env h a)"

definition saveMessages :: "env \<Rightarrow> string \<Rightarrow> message_row list \<Rightarrow> unit prog" where
  "saveMessages env chatId rows = mutation (CallSaveMessages chatId rows) (\<lambda>h. db_saveMessages env h chatId rows)"

definition deleteChatById :: "env \<Rightarrow> string \<Rightarrow> string \<Rightarrow> unit prog" where
  "deleteChatById env chatId userId =
     mutation (CallDeleteChatById chatId userId) (\<lambda>h. db_deleteChatById env h chatId userId)"

definition saveDocument :: "env \<Rightarrow> document_args \<Rightarrow> unit prog" where
  "saveDocument env a = mutation (CallSaveDocument a) (\<lambda>h. db_saveDocument env h a)"

definition saveSuggestions :: "env \<Rightarrow> suggestion_row list \<Rightarrow> unit prog" where
  "saveSuggestions env rows = mutation (CallSaveSuggestions rows) (\<lambda>h. db_saveSuggestions env h rows)"

definition generateTitleFromUserMessage :: "env \<Rightarrow> core_message \<Rightarrow> string prog" where
  "generateTitleFromUserMessage env message =
     request (Some (CallGenerateTitle message)) (\<lambda>h. title_action env h message)"

text \<open>
  A nested \<^verbatim>\<open>streamText\<close> or \<^verbatim>\<open>streamObject\<close> of a tool: the call is recorded and the
  stream is handed back; a failure of the provider shows when the stream is read.
\<close>

definition streamText :: "env \<Rightarrow> string \<Rightarrow> string \<Rightarrow> nested_input \<Rightarrow> chunk async_stream prog" where
  "streamText env api system input =
     request (Some (CallStreamText api system input)) (\<lambda>h. Inr (text_stream env h api system input))"

definition streamObject :: "env \<Rightarrow> string \<Rightarrow> string \<Rightarrow> string \<Rightarrow> element async_stream prog" where
  "streamObject env api system prompt =
     request (Some (CallStreamObject api system prompt)) (\<lambda>h. Inr (element_stream env h api system prompt))"

section \<open>The route: getUser\<close>

text \<open>\<^verbatim>\<open>if (error || !user) throw new Error('Unauthorized'); return user;\<close>\<close>

definition getUser :: "env \<Rightarrow> user prog" where
  "getUser env =
     (case auth_user env of
        None \<Rightarrow> throw (Error ''Unauthorized'')
      | Some u \<Rightarrow> if auth_error env then throw (Error ''Unauthorized'') else ret u)"

text \<open>\<^verbatim>\<open>user && user.id\<close>: the user is an object, so the test is on the id, a string.\<close>

definition user_and_id :: "user \<Rightarrow> bool" where
  "user_and_id u = (user_id u \<noteq> [])"

section \<open>The tools\<close>

text \<open>
  The body of \<^verbatim>\<open>for await (const delta of fullStream)\<close> in \<^verbatim>\<open>createDocument\<close> and
  \<^verbatim>\<open>updateDocument\<close>: a text delta is added to the draft and appended to the multiplexer,
  every other chunk is skipped. The loop throws what the stream throws when it ends.
\<close>

fun read_text_stream :: "chunk list \<Rightarrow> string \<Rightarrow> string prog" where
  "read_text_stream [] draftText = ret draftText"
| "read_text_stream (TextDelta textDelta # rest) draftText =
     await (emit (Append \<lparr>ev_type = ''text-delta'', ev_content = TextContent textDelta\<rparr>))
       (\<lambda>_. read_text_stream rest (draftText @ textDelta))"
| "read_text_stream (OtherChunk _ # rest) draftText = read_text_stream rest draftText"

definition for_await_text :: "chunk async_stream \<Rightarrow> string prog" where
  "for_await_text fullStream =
     await (read_text_stream (fst fullStream) '''')
       (\<lambda>draftText. case snd fullStream of None \<Rightarrow> ret draftText | Some e \<Rightarrow> throw e)"

text \<open>The \<^verbatim>\<open>system\<close> strings of the nested generations.\<close>

definition createDocument_instruction :: string where
  "createDocument_instruction =
     ''Write about the given topic. Markdown is supported. Use headings wherever appropriate.''"

definition updateDocument_instruction :: string where
  "updateDocument_instruction =
     ''You are a helpful writing assistant. Based on the description, please update the piece of writing.''"

definition requestSuggestions_instruction :: string where
  "requestSuggestions_instruction =
     ''You are a help writing assistant. Given a piece of writing, please offer suggestions to improve the piece of writing and describe the change. It is very important for the edits to contain full sentences instead of just words. Max 5 suggestions.''"

definition getWeather_execute :: "env \<Rightarrow> rat \<Rightarrow> rat \<Rightarrow> jsval prog" where
  "getWeather_execute env latitude longitude =
     request (Some (CallFetchWeather latitude longitude)) (\<lambda>h. weather_service env h latitude longitude)"

definition createDocument_execute :: "env \<Rightarrow> user \<Rightarrow> model \<Rightarrow> string \<Rightarrow> jsval prog" where
  "createDocument_execute env user model title =
     await (generateUUID env) (\<lambda>docId.
     await (emit (Append \<lparr>ev_type = ''id'', ev_content = TextContent docId\<rparr>)) (\<lambda>_.
     await (emit (Append \<lparr>ev_type = ''title'', ev_content = TextContent title\<rparr>)) (\<lambda>_.
     await (emit (Append \<lparr>ev_type = ''clear'', ev_content = TextContent ''''\<rparr>)) (\<lambda>_.
     await (streamText env (model_apiIdentifier model) createDocument_instruction (Prompt title)) (\<lambda>fullStream.
     await (for_await_text fullStream) (\<lambda>draftText.
     await (emit (Append \<lparr>ev_type = ''finish'', ev_content = TextContent ''''\<rparr>)) (\<lambda>_.
     await (if user_and_id user
            then saveDocument env
                   \<lparr>sd_id = docId, sd_title = title, sd_content = draftText, sd_userId = user_id user\<rparr>
            else ret ()) (\<lambda>_.
     ret (JObj [(''id'', JStr docId), (''title'', JStr title),
                (''content'', JStr ''A document was created and is now visible to the user.'')])))))))))"

definition updateDocument_execute :: "env \<Rightarrow> user \<Rightarrow> model \<Rightarrow> string \<Rightarrow> string \<Rightarrow> jsval prog" where
  "updateDocument_execute env user model docId description =
     await (getDocumentById env docId) (\<lambda>found.
     case found of
       None \<Rightarrow> ret (JObj [(''error'', JStr ''Document not found'')])
     | Some document \<Rightarrow>
         await (emit (Append \<lparr>ev_type = ''clear'', ev_content = TextContent (doc_title document)\<rparr>)) (\<lambda>_.
         await (streamText env (model_apiIdentifier model)
                  updateDocument_instruction
                  (UserTexts [Some description, doc_content document])) (\<lambda>fullStream.
         await (for_await_text fullStream) (\<lambda>draftText.
         await (emit (Append \<lparr>ev_type = ''finish'', ev_content = TextContent ''''\<rparr>)) (\<lambda>_.
         await (if user_and_id user
                then saveDocument env
                       \<lparr>sd_id = docId, sd_title = doc_title document, sd_content = draftText,
                        sd_userId = user_id user\<rparr>
                else ret ()) (\<lambda>_.
         ret (JObj [(''id'', JStr docId), (''title'', JStr (doc_title document)),
                    (''content'', JStr ''The document has been updated successfully.'')])))))))"

text \<open>
  The body of \<^verbatim>\<open>for await (const element of elementStream)\<close>: a suggestion is built
  with a new id, appended to the multiplexer and pushed onto \<^verbatim>\<open>suggestions\<close>.
\<close>

fun read_element_stream :: "env \<Rightarrow> string \<Rightarrow> element list \<Rightarrow> suggestion list \<Rightarrow> suggestion list prog" where
  "read_element_stream env documentId [] suggestions = ret suggestions"
| "read_element_stream env documentId (el # rest) suggestions =
     await (generateUUID env) (\<lambda>newId.
     await (emit (Append \<lparr>ev_type = ''suggestion'',
                         ev_content = SuggestionContent
                           \<lparr>sg_originalText = el_originalSentence el,
                            sg_suggestedText = el_suggestedSentence el,
                            sg_description = el_description el,
                            sg_id = newId, sg_documentId = documentId, sg_isResolved = False\<rparr>\<rparr>)) (\<lambda>_.
     read_element_stream env documentId rest
       (suggestions @ [\<lparr>sg_originalText = el_originalSentence el,
                        sg_suggestedText = el_suggestedSentence el,
                        sg_description = el_description el,
                        sg_id = newId, sg_documentId = documentId, sg_isResolved = False\<rparr>])))"

definition for_await_elements :: "env \<Rightarrow> string \<Rightarrow> element async_stream \<Rightarrow> suggestion list prog" where
  "for_await_elements env documentId elementStream =
     await (read_element_stream env documentId (fst elementStream) [])
       (\<lambda>suggestions. case snd elementStream of None \<Rightarrow> ret suggestions | Some e \<Rightarrow> throw e)"

text \<open>
  \<^verbatim>\<open>suggestions.map((suggestion) => ({...suggestion, userId, createdAt: new Date(),
  documentCreatedAt: document.created_at}))\<close>: one clock reading per suggestion.
\<close>

fun suggestion_rows :: "env \<Rightarrow> string \<Rightarrow> string \<Rightarrow> suggestion list \<Rightarrow> suggestion_row list prog" where
  "suggestion_rows env userId documentCreatedAt [] = ret []"
| "suggestion_rows env userId documentCreatedAt (sg # rest) =
     await (now env) (\<lambda>createdAt.
     await (suggestion_rows env userId documentCreatedAt rest) (\<lambda>rows.
     ret (suggestion.extend sg (suggestion_row.fields userId createdAt documentCreatedAt) # rows)))"

definition requestSuggestions_execute :: "env \<Rightarrow> user \<Rightarrow> model \<Rightarrow> string \<Rightarrow> jsval prog" where
  "requestSuggestions_execute env user model documentId =
     await (getDocumentById env documentId) (\<lambda>found.
     case found of
       None \<Rightarrow> ret (JObj [(''error'', JStr ''Document not found'')])
     | Some document \<Rightarrow>
         (case doc_content document of
            None \<Rightarrow> ret (JObj [(''error'', JStr ''Document not found'')])
          | Some content \<Rightarrow>
              if content = [] then ret (JObj [(''error'', JStr ''Document not found'')])
              else
                await (streamObject env (model_apiIdentifier model) requestSuggestions_instruction content) (\<lambda>elementStream.
                await (for_await_elements env documentId elementStream) (\<lambda>suggestions.
                await (if user_and_id user
                       then await (suggestion_rows env (user_id user) (doc_created_at document) suggestions)
                              (\<lambda>rows. saveSuggestions env rows)
                       else ret ()) (\<lambda>_.
                ret (JObj [(''id'', JStr documentId), (''title'', JStr (doc_title document)),
                           (''message'', JStr ''Suggestions have been added to the document'')]))))))"

section \<open>The finish callback\<close>

text \<open>
  The callback that \<^verbatim>\<open>onFinish\<close> maps over the sanitized response messages: a new id,
  the annotation for an assistant message, the row.
\<close>

fun response_rows :: "env \<Rightarrow> string \<Rightarrow> core_message list \<Rightarrow> message_row list prog" where
  "response_rows env chatId [] = ret []"
| "response_rows env chatId (message # rest) =
     await (generateUUID env) (\<lambda>messageId.
     await (if message_role message = ''assistant''
            then emit (AppendMessageAnnotation messageId) else ret ()) (\<lambda>_.
     await (now env) (\<lambda>created.
     await (response_rows env chatId rest) (\<lambda>rows.
     ret (\<lparr>msg_id = messageId, msg_chat_id = chatId, msg_role = message_role message,
           msg_content = formatMessageContent (JSON_stringify env) message,
           msg_created_at = created\<rparr> # rows)))))"

definition onFinish :: "env \<Rightarrow> user \<Rightarrow> string \<Rightarrow> core_message list \<Rightarrow> unit prog" where
  "onFinish env user chatId responseMessages =
     await (if user_and_id user
            then try_catch
                   (await (response_rows env chatId (lib_sanitizeResponseMessages env responseMessages))
                      (\<lambda>rows. saveMessages env chatId rows))
                   (\<lambda>error. emit (ConsoleError ''Failed to save chat:'' error))
            else ret ()) (\<lambda>_.
     emit Close)"

section \<open>The generation loop of the SDK\<close>

fun tool_name :: "tool_input \<Rightarrow> string" where
  "tool_name (GetWeather _ _) = ''getWeather''"
| "tool_name (CreateDocument _) = ''createDocument''"
| "tool_name (UpdateDocument _ _) = ''updateDocument''"
| "tool_name (RequestSuggestions _) = ''requestSuggestions''"

fun tool_args :: "tool_input \<Rightarrow> jsval" where
  "tool_args (GetWeather latitude longitude) =
     JObj [(''latitude'', JNum latitude), (''longitude'', JNum longitude)]"
| "tool_args (CreateDocument title) = JObj [(''title'', JStr title)]"
| "tool_args (UpdateDocument docId description) =
     JObj [(''id'', JStr docId), (''description'', JStr description)]"
| "tool_args (RequestSuggestions documentId) = JObj [(''documentId'', JStr documentId)]"

text \<open>The \<^verbatim>\<open>tools\<close> object of the route: each name with its \<^verbatim>\<open>execute\<close>.\<close>

fun execute_tool :: "env \<Rightarrow> user \<Rightarrow> model \<Rightarrow> tool_input \<Rightarrow> jsval prog" where
  "execute_tool env user model (GetWeather latitude longitude) = getWeather_execute env latitude longitude"
| "execute_tool env user model (CreateDocument title) = createDocument_execute env user model title"
| "execute_tool env user model (UpdateDocument docId description) =
     updateDocument_execute env user model docId description"
| "execute_tool env user model (RequestSuggestions documentId) =
     requestSuggestions_execute env user model documentId"

text \<open>\<^verbatim>\<open>maxSteps: 5\<close>, the step cap that the route passes to \<^verbatim>\<open>streamText\<close>.\<close>

definition maxSteps :: nat where
  "maxSteps = 5"

text \<open>
  Modelled from the spec: the loop inside the SDK's \<^verbatim>\<open>streamText\<close> (package \<^verbatim>\<open>ai\<close>)
  is not in the repository; the route only passes it the model, the system prompt, the
  messages, \<^verbatim>\<open>maxSteps\<close>, the tools and \<^verbatim>\<open>onFinish\<close>. GENERATE (section 4.4) invokes the
  model with the full message history, the system prompt and the active tool set; the
  output is text with zero or more tool calls, or the failure of the provider.
\<close>

definition generate :: "env \<Rightarrow> model \<Rightarrow> core_message list \<Rightarrow> (string \<times> tool_call list) prog" where
  "generate env model messages =
     request (Some (Generate (model_apiIdentifier model) (systemPrompt env) messages))
       (\<lambda>h. case language_model env h (model_apiIdentifier model) (systemPrompt env) messages of
               Reply t calls \<Rightarrow> Inr (t, calls)
             | ProviderFailure e \<Rightarrow> Inl e)"

text \<open>
  Modelled from the spec: TOOL_CALL and TOOL_EXEC (section 4.4). Each requested call is
  matched with its tool and executed, here one after the other in the order of the
  reply; an exception of a tool propagates and ends the generation step (section 4.2).
  The results become the parts of a tool message.
\<close>

fun execute_tools :: "env \<Rightarrow> user \<Rightarrow> model \<Rightarrow> tool_call list \<Rightarrow> tool_result_part list prog" where
  "execute_tools env user model [] = ret []"
| "execute_tools env user model (c # calls) =
     await (execute_tool env user model (call_input c)) (\<lambda>result.
     await (execute_tools env user model calls) (\<lambda>results.
     ret (\<lparr>tr_type = Some ''tool-result'', tr_toolCallId = call_id c,
           tr_toolName = tool_name (call_input c), tr_result = result\<rparr> # results)))"

text \<open>
  Modelled from the spec: the assistant message of a round, an ordered sequence of a
  text part and the tool calls of the reply (section 3).
\<close>

definition assistant_message :: "string \<Rightarrow> tool_call list \<Rightarrow> core_message" where
  "assistant_message t calls =
     AssistantMessage (AssistantParts
       (TextPart t # map (\<lambda>c. ToolCallPart (call_id c) (tool_name (call_input c)) (tool_args (call_input c))) calls))"

text \<open>
  Modelled from the spec: the state machine of section 4.4,
  GENERATE, then (TOOL_CALL, TOOL_EXEC, GENERATE) repeated, bounded by the step cap. A
  round calls the model; when the reply has no tool call the loop ends with the response
  messages; otherwise the tools run, their results are fed back as a tool message, and
  the next round starts if a step is left. With no step left the loop ends with the
  messages it has: completion is forced.
\<close>

fun generation_loop ::
  "env \<Rightarrow> user \<Rightarrow> model \<Rightarrow> nat \<Rightarrow> core_message list \<Rightarrow> core_message list \<Rightarrow> core_message list prog" where
  "generation_loop env user model 0 messages responseMessages = ret responseMessages"
| "generation_loop env user model (Suc steps) messages responseMessages =
     await (generate env model messages) (\<lambda>reply.
       if snd reply = [] then ret (responseMessages @ [assistant_message (fst reply) []])
       else
         await (execute_tools env user model (snd reply)) (\<lambda>results.
         generation_loop env user model steps
           (messages @ [assistant_message (fst reply) (snd reply), ToolMessage results])
           (responseMessages @ [assistant_message (fst reply) (snd reply), ToolMessage results])))"

text \<open>
  Modelled from the spec: the main \<^verbatim>\<open>streamText\<close> of the route, read to its end. The
  loop runs with \<^verbatim>\<open>maxSteps\<close> steps; on its completion the SDK calls \<^verbatim>\<open>onFinish\<close> with the
  response messages (PERSIST_RESPONSE, CLOSE). A failure of the provider, or an exception
  of a tool, is a fatal failure of the turn (section 7): the awaited \<^verbatim>\<open>streamText\<close>
  rejects with it, \<^verbatim>\<open>onFinish\<close> is not called, and the exception reaches the \<^verbatim>\<open>catch\<close> of
  \<^verbatim>\<open>POST\<close>, inside whose \<^verbatim>\<open>try\<close> the call stands.
\<close>

definition streamText_main :: "env \<Rightarrow> user \<Rightarrow> model \<Rightarrow> string \<Rightarrow> core_message list \<Rightarrow> unit prog" where
  "streamText_main env user model chatId coreMessages =
     await (generation_loop env user model maxSteps coreMessages [])
       (\<lambda>responseMessages. onFinish env user chatId responseMessages)"

section \<open>The handlers\<close>

record post_request =
  req_id :: string
  req_messages :: "jsval list"
  req_modelId :: string

text \<open>
  What a handler hands back: a \<^verbatim>\<open>Response\<close> with body and status, the streamed
  response, or nothing (the function ends without \<^verbatim>\<open>return\<close>).
\<close>

datatype response = Response string nat | StreamResponse | NoResponse

text \<open>
  \<^verbatim>\<open>await saveMessages({chatId: id, messages: [{id: generateUUID(), chat_id: id, role,
  content: formatMessageContent(userMessage), created_at: new Date().toISOString()}]})\<close>,
  which the route has twice, at 4.6 and at 4.12.1.
\<close>

definition saveUserMessage :: "env \<Rightarrow> string \<Rightarrow> core_message \<Rightarrow> unit prog" where
  "saveUserMessage env chatId userMessage =
     await (generateUUID env) (\<lambda>newId.
     await (now env) (\<lambda>created.
     saveMessages env chatId
       [\<lparr>msg_id = newId, msg_chat_id = chatId, msg_role = message_role userMessage,
         msg_content = formatMessageContent (JSON_stringify env) userMessage,
         msg_created_at = created\<rparr>]))"

text \<open>Steps 4.6 to 4.11 of \<^verbatim>\<open>POST\<close>.\<close>

definition POST_generate ::
  "env \<Rightarrow> user \<Rightarrow> model \<Rightarrow> string \<Rightarrow> core_message list \<Rightarrow> core_message \<Rightarrow> response prog" where
  "POST_generate env user model chatId coreMessages userMessage =
     await (saveUserMessage env chatId userMessage) (\<lambda>_.
     await (emit NewStreamData) (\<lambda>_.
     await (streamText_main env user model chatId coreMessages) (\<lambda>_.
     ret StreamResponse)))"

text \<open>\<^verbatim>\<open>models.find((model) => model.id === modelId)\<close>\<close>

definition find_model :: "env \<Rightarrow> string \<Rightarrow> model option" where
  "find_model env modelId = find (\<lambda>m. model_id m = modelId) (models env)"

text \<open>
  \<^verbatim>\<open>POST\<close>. The test \<^verbatim>\<open>if (!user)\<close> after \<^verbatim>\<open>getUser()\<close> has no branch here: \<^verbatim>\<open>getUser\<close>
  returns a user object or throws.
\<close>

definition POST :: "env \<Rightarrow> post_request \<Rightarrow> response prog" where
  "POST env req =
     await (getUser env) (\<lambda>user.
     case find_model env (req_modelId req) of
       None \<Rightarrow> ret (Response ''Model not found'' 404)
     | Some model \<Rightarrow>
         (case lib_getMostRecentUserMessage env (lib_convertToCoreMessages env (req_messages req)) of
            None \<Rightarrow> ret (Response ''No user message found'' 400)
          | Some userMessage \<Rightarrow>
              try_catch
                (await (getChatById env (req_id req)) (\<lambda>found.
                 case found of
                   None \<Rightarrow>
                     await (generateTitleFromUserMessage env userMessage) (\<lambda>title.
                     await (saveChat env \<lparr>sc_id = req_id req, sc_userId = user_id user, sc_title = title\<rparr>) (\<lambda>_.
                     POST_generate env user model (req_id req)
                       (lib_convertToCoreMessages env (req_messages req)) userMessage))
                 | Some c \<Rightarrow>
                     if chat_user_id c \<noteq> user_id user then ret (Response ''Unauthorized'' 401)
                     else POST_generate env user model (req_id req)
                            (lib_convertToCoreMessages env (req_messages req)) userMessage))
                (\<lambda>error.
                 await (emit (ConsoleError ''Error in chat route:'' error)) (\<lambda>_.
                 if error = Error ''Chat ID already exists''
                 then await (saveUserMessage env (req_id req) userMessage) (\<lambda>_. ret NoResponse)
                 else throw error))))"

text \<open>\<^verbatim>\<open>DELETE\<close>; its argument is \<^verbatim>\<open>searchParams.get('id')\<close>.\<close>

definition DELETE :: "env \<Rightarrow> string option \<Rightarrow> response prog" where
  "DELETE env idParam =
     (case idParam of
        None \<Rightarrow> ret (Response ''Not Found'' 404)
      | Some chatId \<Rightarrow>
          if chatId = [] then ret (Response ''Not Found'' 404)
          else
            await (getUser env) (\<lambda>user.
            try_catch
              (await (getChatById env chatId) (\<lambda>found.
               case found of
                 None \<Rightarrow> ret (Response ''Chat not found'' 404)
               | Some c \<Rightarrow>
                   if chat_user_id c \<noteq> user_id user then ret (Response ''Unauthorized'' 401)
                   else await (deleteChatById env chatId (user_id user)) (\<lambda>_.
                        ret (Response ''Chat deleted'' 200))))
              (\<lambda>error.
               await (emit (ConsoleError ''Error deleting chat:'' error)) (\<lambda>_.
               ret (Response ''An error occurred while processing your request'' 500)))))"

section \<open>Reading the effects of a run\<close>

fun is_generate :: "effect \<Rightarrow> bool" where
  "is_generate (Generate _ _ _) = True"
| "is_generate _ = False"

fun is_close :: "effect \<Rightarrow> bool" where
  "is_close Close = True"
| "is_close _ = False"

text \<open>The operations on the multiplexer: its creation, the two appends and the close.\<close>

fun is_multiplexer :: "effect \<Rightarrow> bool" where
  "is_multiplexer NewStreamData = True"
| "is_multiplexer (Append _) = True"
| "is_multiplexer (AppendMessageAnnotation _) = True"
| "is_multiplexer Close = True"
| "is_multiplexer _ = False"

text \<open>What a tool may do: append events, run a nested generation, ask the weather, save.\<close>

fun tool_effect :: "effect \<Rightarrow> bool" where
  "tool_effect (Append _) = True"
| "tool_effect (CallStreamText _ _ _) = True"
| "tool_effect (CallStreamObject _ _ _) = True"
| "tool_effect (CallFetchWeather _ _) = True"
| "tool_effect (CallSaveDocument _) = True"
| "tool_effect (CallSaveSuggestions _) = True"
| "tool_effect _ = False"

text \<open>What the finish callback does before it closes: annotations, the save, a logged failure.\<close>

fun finish_effect :: "effect \<Rightarrow> bool" where
  "finish_effect (AppendMessageAnnotation _) = True"
| "finish_effect (CallSaveMessages _ _) = True"
| "finish_effect (ConsoleError _ _) = True"
| "finish_effect _ = False"

text \<open>What \<^verbatim>\<open>POST\<close> does outside the generation: the title, the two saves, a logged failure.\<close>

fun route_effect :: "effect \<Rightarrow> bool" where
  "route_effect (CallGenerateTitle _) = True"
| "route_effect (CallSaveChat _) = True"
| "route_effect (CallSaveMessages _ _) = True"
| "route_effect (ConsoleError _ _) = True"
| "route_effect _ = False"

text \<open>The effects that a program adds when it runs from \<open>s\<close>.\<close>

definition new_effects :: "'a prog \<Rightarrow> state \<Rightarrow> effect list" where
  "new_effects m s = drop (length (effects s)) (effects (snd (m s)))"

text \<open>
  What the effects \<open>new\<close> of a turn with outcome \<open>r\<close> satisfy: at most \<open>maxSteps\<close> calls
  of the model in the loop; no operation on the multiplexer when a \<^verbatim>\<open>Response\<close> with a
  status is returned; exactly one close, as the last effect, when the streamed response
  is returned; and no close when the handler throws or ends without a response.
\<close>

fun closes :: "response outcome \<Rightarrow> effect list \<Rightarrow> bool" where
  "closes (Return (Response body status)) new = (filter is_multiplexer new = [])"
| "closes (Return StreamResponse) new = (filter is_close new = [Close] \<and> last new = Close)"
| "closes (Return NoResponse) new = (filter is_close new = [])"
| "closes (Throw e) new = (filter is_close new = [])"

definition turn_property :: "response outcome \<Rightarrow> effect list \<Rightarrow> bool" where
  "turn_property r new = (length (filter is_generate new) \<le> maxSteps \<and> closes r new)"

text \<open>Every run of \<open>m\<close> keeps the effects so far and adds only effects that satisfy \<open>P\<close>.\<close>

definition adds :: "(effect \<Rightarrow> bool) \<Rightarrow> 'a prog \<Rightarrow> bool" where
  "adds P m = (\<forall>s. \<exists>new. effects (snd (m s)) = effects s @ new \<and> list_all P new)"

text \<open>The text deltas among the chunks of a stream, in the order of the stream.\<close>

fun text_deltas :: "chunk list \<Rightarrow> string list" where
  "text_deltas [] = []"
| "text_deltas (TextDelta d # rest) = d # text_deltas rest"
| "text_deltas (OtherChunk _ # rest) = text_deltas rest"

definition text_delta_event :: "string \<Rightarrow> effect" where
  "text_delta_event d = Append \<lparr>ev_type = ''text-delta'', ev_content = TextContent d\<rparr>"

text \<open>
  The suggestions that \<^verbatim>\<open>requestSuggestions\<close> builds from the elements when \<open>n\<close>
  identifiers have been handed out before, and their rows when the clock has been read
  \<open>k\<close> times before.
\<close>

fun suggestions_from :: "env \<Rightarrow> string \<Rightarrow> nat \<Rightarrow> element list \<Rightarrow> suggestion list" where
  "suggestions_from env documentId n [] = []"
| "suggestions_from env documentId n (el # rest) =
     \<lparr>sg_originalText = el_originalSentence el, sg_suggestedText = el_suggestedSentence el,
      sg_description = el_description el, sg_id = uuid_source env n,
      sg_documentId = documentId, sg_isResolved = False\<rparr>
     # suggestions_from env documentId (Suc n) rest"

fun rows_from :: "env \<Rightarrow> string \<Rightarrow> string \<Rightarrow> nat \<Rightarrow> suggestion list \<Rightarrow> suggestion_row list" where
  "rows_from env userId documentCreatedAt k [] = []"
| "rows_from env userId documentCreatedAt k (sg # rest) =
     suggestion.extend sg (suggestion_row.fields userId (clock env k) documentCreatedAt)
     # rows_from env userId documentCreatedAt (Suc k) rest"

definition suggestion_event :: "suggestion \<Rightarrow> effect" where
  "suggestion_event sg = Append \<lparr>ev_type = ''suggestion'', ev_content = SuggestionContent sg\<rparr>"

fun is_suggestion_event :: "effect \<Rightarrow> bool" where
  "is_suggestion_event (Append ev) = (ev_type ev = ''suggestion'')"
| "is_suggestion_event _ = False"

section \<open>A concrete environment\<close>

text \<open>
  Alice is signed in; one model is registered; no chat and no document exists; every
  write succeeds; identifiers and clock readings are numbered in unary. The model
  answers the first message by a call of \<^verbatim>\<open>createDocument\<close> and every later history
  by plain text.
\<close>

definition start :: state where
  "start = \<lparr>effects = [], uuids_taken = 0, clock_reads = 0\<rparr>"

definition alice :: user where
  "alice = \<lparr>user_id = ''alice''\<rparr>"

definition gpt :: model where
  "gpt = \<lparr>model_id = ''gpt-4o'', model_apiIdentifier = ''gpt-4o''\<rparr>"

fun demo_convert :: "jsval \<Rightarrow> core_message" where
  "demo_convert (JStr s) = UserMessage (UserText s)"
| "demo_convert _ = SystemMessage ''''"

fun demo_last_user :: "core_message list \<Rightarrow> core_message option" where
  "demo_last_user [] = None"
| "demo_last_user (m # ms) =
     (case demo_last_user ms of
        Some u \<Rightarrow> Some u
      | None \<Rightarrow> if message_role m = ''user'' then Some m else None)"

definition demo_reply :: "core_message list \<Rightarrow> model_reply" where
  "demo_reply messages =
     (if length messages \<le> 1
      then Reply '''' [\<lparr>call_id = ''call-1'', call_input = CreateDocument ''Plan''\<rparr>]
      else Reply ''Done.'' [])"

definition demo_env :: env where
  "demo_env =
     \<lparr>auth_user = Some alice,
      auth_error = False,
      models = [gpt],
      systemPrompt = ''You are a friendly assistant.'',
      JSON_stringify = (\<lambda>v. ''[json]''),
      lib_convertToCoreMessages = map demo_convert,
      lib_getMostRecentUserMessage = demo_last_user,
      lib_sanitizeResponseMessages = (\<lambda>ms. ms),
      uuid_source = (\<lambda>n. ''id-'' @ replicate n (CHR ''i'')),
      clock = (\<lambda>n. ''t-'' @ replicate n (CHR ''i'')),
      db_getChatById = (\<lambda>h chatId. Inr None),
      db_getDocumentById = (\<lambda>h docId. Inr None),
      db_saveChat = (\<lambda>h a. None),
      db_saveMessages = (\<lambda>h chatId rows. None),
      db_deleteChatById = (\<lambda>h chatId userId. None),
      db_saveDocument = (\<lambda>h a. None),
      db_saveSuggestions = (\<lambda>h rows. None),
      title_action = (\<lambda>h m. Inr ''Greeting''),
      language_model = (\<lambda>h api system messages. demo_reply messages),
      text_stream = (\<lambda>h api system input. ([TextDelta ''# Plan'', OtherChunk ''step-finish'', TextDelta ''Step one.''], None)),
      element_stream = (\<lambda>h api system prompt. ([], None)),
      weather_service = (\<lambda>h latitude longitude. Inr JNull)\<rparr>"

definition demo_request :: post_request where
  "demo_request = \<lparr>req_id = ''chat-1'', req_messages = [JStr ''hello''], req_modelId = ''gpt-4o''\<rparr>"

text \<open>Variations: no session; the chat exists and belongs to Bob; creating the chat collides.\<close>

definition no_session_env :: env where
  "no_session_env = demo_env\<lparr>auth_user := None\<rparr>"

definition bobs_chat :: chat where
  "bobs_chat = \<lparr>chat_id = ''chat-1'', chat_user_id = ''bob'', chat_title = ''Bob's notes''\<rparr>"

definition bobs_chat_env :: env where
  "bobs_chat_env = demo_env\<lparr>db_getChatById := (\<lambda>h chatId. Inr (Some bobs_chat))\<rparr>"

definition conflict_env :: env where
  "conflict_env = demo_env\<lparr>db_saveChat := (\<lambda>h a. Some (Error ''Chat ID already exists''))\<rparr>"

definition unknown_model_request :: post_request where
  "unknown_model_request = demo_request\<lparr>req_modelId := ''nonexistent''\<rparr>"

text \<open>A document with content, and a structured generation that yields six elements.\<close>

definition essay :: document where
  "essay = \<lparr>doc_id = ''doc-1'', doc_title = ''Essay'', doc_content = Some ''It was a day.'',
            doc_created_at = ''2024-12-01'', doc_user_id = ''alice''\<rparr>"

definition an_element :: element where
  "an_element = \<lparr>el_originalSentence = ''It was a day.'', el_suggestedSentence = ''It was a bright day.'',
                 el_description = ''Say more.''\<rparr>"

definition six_elements_env :: env where
  "six_elements_env =
     demo_env\<lparr>db_getDocumentById := (\<lambda>h docId. Inr (Some essay)),
              element_stream := (\<lambda>h api system prompt.
                 ([an_element, an_element, an_element, an_element, an_element, an_element], None))\<rparr>"

text \<open>
  A model that answers with plain text, and a store that accepts the user message but
  fails once the multiplexer exists, so that saving the response fails.
\<close>

definition response_save_fails_env :: env where
  "response_save_fails_env =
     demo_env\<lparr>language_model := (\<lambda>h api system messages. Reply ''Hello!'' []),
              db_saveMessages := (\<lambda>h chatId rows. if list_ex is_multiplexer h
                                                   then Some (Error ''connection lost'') else None)\<rparr>"

text \<open>A provider that fails in the first round.\<close>

definition provider_fails_env :: env where
  "provider_fails_env =
     demo_env\<lparr>language_model := (\<lambda>h api system messages. ProviderFailure (Error ''overloaded''))\<rparr>"

text \<open>A model that asks for the weather in every round.\<close>

definition weather_every_round_env :: env where
  "weather_every_round_env =
     demo_env\<lparr>language_model :=
       (\<lambda>h api system messages. Reply '''' [\<lparr>call_id = ''call'', call_input = GetWeather 52 13\<rparr>])\<rparr>"

section \<open>Running a program step by step\<close>

named_theorems prog_defs

lemmas [prog_defs] = ret_def throw_def await_def try_catch_def emit_def generateUUID_def now_def
  mutation_def request_def Let_def getChatById_def getDocumentById_def saveChat_def saveMessages_def
  deleteChatById_def saveDocument_def saveSuggestions_def generateTitleFromUserMessage_def
  streamText_def streamObject_def getUser_def user_and_id_def

lemmas demo_defs = demo_env_def demo_request_def start_def alice_def gpt_def find_model_def
  no_session_env_def bobs_chat_env_def bobs_chat_def conflict_env_def unknown_model_request_def
  response_save_fails_env_def weather_every_round_env_def provider_fails_env_def

lemma effects_start: "effects start = []"
  by (simp add: start_def)

lemma getUser_session:
  "auth_user env = Some u \<Longrightarrow> \<not> auth_error env \<Longrightarrow> getUser env s = (Return u, s)"
  by (simp add: prog_defs)

lemma getUser_no_session:
  "auth_user env = None \<or> auth_error env \<Longrightarrow> getUser env s = (Throw (Error ''Unauthorized''), s)"
  by (auto simp: prog_defs split: option.splits)

lemma getUser_returns_or_throws_Unauthorized:
  "getUser env s = (Throw (Error ''Unauthorized''), s) \<or> (\<exists>u. getUser env s = (Return u, s))"
  by (auto simp: prog_defs split: option.splits)

lemma POST_no_session:
  "auth_user env = None \<or> auth_error env \<Longrightarrow> POST env req s = (Throw (Error ''Unauthorized''), s)"
  by (simp add: POST_def await_def getUser_no_session)

lemma DELETE_no_session:
  "auth_user env = None \<or> auth_error env \<Longrightarrow> chatId \<noteq> [] \<Longrightarrow>
   DELETE env (Some chatId) s = (Throw (Error ''Unauthorized''), s)"
  by (simp add: DELETE_def await_def getUser_no_session)

lemma DELETE_no_id:
  "DELETE env None s = (Return (Response ''Not Found'' 404), s)"
  by (simp add: DELETE_def ret_def)

section \<open>Properties of the codec\<close>

lemma spec_elements_map: "spec_elements f ps = map f ps"
  by (induction ps) simp_all

lemma assistant_element_spec: "assistant_element p = spec_assistant_element p"
  by (cases p) (simp_all add: assistant_element_def spec_text_element_def spec_tool_call_element_def)

lemma tool_result_element_spec: "tool_result_element p = spec_tool_result p"
  by (simp add: tool_result_element_def spec_tool_result_element_def split: option.split list.split)

text \<open>
  C2. \<open>formatMessageContent\<close> is a total function of the message (and of the serializer)
  alone. A user message with string content is returned unchanged, with structured
  content it is serialized; a tool message becomes the serialized array of its
  \<open>{type, toolCallId, toolName, result}\<close> elements, one per part and in the order of the
  parts, with \<open>type\<close> \<open>tool-result\<close> when the part has none; an assistant message with
  string content becomes the serialized one-element array \<open>[{type: text, text}]\<close>, with
  structured content the serialized array of one \<open>text\<close> or \<open>tool-call\<close> element per part,
  in the order of the parts; every other role gives the empty string.
\<close>

theorem C2_formatMessageContent_normal_form:
  "formatMessageContent stringify (UserMessage (UserText s)) = s
   \<and> formatMessageContent stringify (UserMessage (UserParts us)) = stringify (JArr us)
   \<and> formatMessageContent stringify (ToolMessage rs) =
       stringify (JArr (spec_elements spec_tool_result rs))
   \<and> spec_tool_result \<lparr>tr_type = None, tr_toolCallId = callId, tr_toolName = name, tr_result = res\<rparr> =
       JObj [(''type'', JStr ''tool-result''), (''toolCallId'', JStr callId),
             (''toolName'', JStr name), (''result'', res)]
   \<and> spec_tool_result \<lparr>tr_type = Some (c # cs), tr_toolCallId = callId, tr_toolName = name, tr_result = res\<rparr> =
       JObj [(''type'', JStr (c # cs)), (''toolCallId'', JStr callId),
             (''toolName'', JStr name), (''result'', res)]
   \<and> formatMessageContent stringify (AssistantMessage (AssistantText s)) =
       stringify (JArr [JObj [(''type'', JStr ''text''), (''text'', JStr s)]])
   \<and> formatMessageContent stringify (AssistantMessage (AssistantParts ps)) =
       stringify (JArr (spec_elements spec_assistant_element ps))
   \<and> length (spec_elements spec_assistant_element ps) = length ps
   \<and> length (spec_elements spec_tool_result rs) = length rs
   \<and> spec_assistant_element (TextPart t) = JObj [(''type'', JStr ''text''), (''text'', JStr t)]
   \<and> spec_assistant_element (ToolCallPart callId name args) =
       JObj [(''type'', JStr ''tool-call''), (''toolCallId'', JStr callId),
             (''toolName'', JStr name), (''args'', args)]
   \<and> formatMessageContent stringify (SystemMessage s) = ''''"
proof -
  have tool: "map tool_result_element rs = spec_elements spec_tool_result rs"
    by (simp add: spec_elements_map tool_result_element_spec)
  have assistant: "map assistant_element ps = spec_elements spec_assistant_element ps"
    by (simp add: spec_elements_map assistant_element_spec)
  show ?thesis
    by (simp add: tool assistant spec_elements_map spec_text_element_def
        spec_tool_call_element_def spec_tool_result_element_def)
qed

section \<open>Requests without a session\<close>

text \<open>
  C9. The claim: a POST or DELETE request with no valid session is answered with status
  401. The code: \<open>getUser\<close> throws \<open>Error Unauthorized\<close>, outside every \<^verbatim>\<open>try\<close>, so neither
  handler returns a response; here for the request of Alice's client after her session
  has ended, and for the deletion of chat \<open>chat-1\<close>. A DELETE request without an id is
  answered 404 before the session is looked at.
\<close>

theorem C9_no_session_throws:
  "auth_user no_session_env = None
   \<and> POST no_session_env demo_request start = (Throw (Error ''Unauthorized''), start)
   \<and> DELETE no_session_env (Some ''chat-1'') start = (Throw (Error ''Unauthorized''), start)
   \<and> DELETE no_session_env None start = (Return (Response ''Not Found'' 404), start)"
  by (simp add: POST_no_session DELETE_no_session DELETE_no_id no_session_env_def)

section \<open>An unknown model\<close>

text \<open>
  C4, as stated, fails without a session: the unknown model is never looked up, the
  handler throws instead of answering 404.
\<close>

theorem C4_counterexample_no_session:
  "find_model no_session_env (req_modelId unknown_model_request) = None
   \<and> POST no_session_env unknown_model_request start = (Throw (Error ''Unauthorized''), start)"
  by (simp add: POST_no_session no_session_env_def)
     (simp add: demo_defs)

text \<open>
  C4, amended. A POST request whose \<open>modelId\<close> matches no registered model leaves the state
  as it was: no effect at all, so no call of a model and no write to the store. When the
  caller has a session, the answer is \<open>Model not found\<close> with status 404.
\<close>

theorem C4_unknown_model_no_effect:
  assumes "find_model env (req_modelId req) = None"
  shows "snd (POST env req s) = s
         \<and> (auth_user env = Some u \<and> \<not> auth_error env \<longrightarrow>
              POST env req s = (Return (Response ''Model not found'' 404), s))"
proof -
  have "getUser env s = (Throw (Error ''Unauthorized''), s) \<or> (\<exists>u. getUser env s = (Return u, s))"
    by (rule getUser_returns_or_throws_Unauthorized)
  then have unchanged: "snd (POST env req s) = s"
    using assms by (auto simp: POST_def await_def ret_def)
  have "POST env req s = (Return (Response ''Model not found'' 404), s)"
    if "auth_user env = Some u" "\<not> auth_error env"
    using assms getUser_session[OF that] by (simp add: POST_def await_def ret_def)
  with unchanged show ?thesis by blast
qed

theorem C4_unknown_model_witness:
  "find_model demo_env (req_modelId unknown_model_request) = None
   \<and> auth_user demo_env = Some alice \<and> \<not> auth_error demo_env
   \<and> POST demo_env unknown_model_request start = (Return (Response ''Model not found'' 404), start)"
proof -
  have m: "find_model demo_env (req_modelId unknown_model_request) = None"
    by (simp add: demo_defs)
  have a: "auth_user demo_env = Some alice \<and> \<not> auth_error demo_env"
    by (simp add: demo_defs)
  from C4_unknown_model_no_effect[OF m, where u = alice and s = start] a m show ?thesis by blast
qed

section \<open>Requests on a chat of another user\<close>

text \<open>
  C3, as stated, fails for a POST request with an unknown model: the model is validated
  before the chat is looked up, and Alice's request on Bob's chat is answered 404.
\<close>

theorem C3_counterexample_unknown_model:
  "auth_user bobs_chat_env = Some alice \<and> \<not> auth_error bobs_chat_env
   \<and> db_getChatById bobs_chat_env (effects start) (req_id unknown_model_request) = Inr (Some bobs_chat)
   \<and> chat_user_id bobs_chat \<noteq> user_id alice
   \<and> POST bobs_chat_env unknown_model_request start = (Return (Response ''Model not found'' 404), start)"
  by (simp add: demo_defs POST_def prog_defs)

text \<open>
  C3, amended. The caller has a session and the chat exists and belongs to another user.
  DELETE with the id of the chat answers 401. POST with that id answers 401 when the
  model is registered and the messages hold a user message, and otherwise 404 (unknown
  model) or 400 (no user message) from the validation that comes first. In every case the
  state is as before the request: no row is created, changed or removed, and nothing has
  been persisted when the ownership test rejects.
\<close>

theorem C3_not_owner_rejected:
  assumes "auth_user env = Some u" and "\<not> auth_error env"
    and "db_getChatById env (effects s) chatId = Inr (Some c)"
    and "chat_user_id c \<noteq> user_id u"
    and "chatId \<noteq> []"
    and "req_id req = chatId"
  shows "DELETE env (Some chatId) s = (Return (Response ''Unauthorized'' 401), s)
         \<and> POST env req s =
             (Return
               (if find_model env (req_modelId req) = None then Response ''Model not found'' 404
                else if lib_getMostRecentUserMessage env (lib_convertToCoreMessages env (req_messages req)) = None
                then Response ''No user message found'' 400
                else Response ''Unauthorized'' 401), s)"
proof -
  have d: "DELETE env (Some chatId) s = (Return (Response ''Unauthorized'' 401), s)"
    using assms(3-5) getUser_session[OF assms(1,2)]
    by (simp add: DELETE_def await_def try_catch_def getChatById_def request_def ret_def)
  have p: "POST env req s =
             (Return
               (if find_model env (req_modelId req) = None then Response ''Model not found'' 404
                else if lib_getMostRecentUserMessage env (lib_convertToCoreMessages env (req_messages req)) = None
                then Response ''No user message found'' 400
                else Response ''Unauthorized'' 401), s)"
    using assms(3,4,6) getUser_session[OF assms(1,2)]
    by (auto simp: POST_def await_def try_catch_def getChatById_def request_def ret_def
        split: option.splits)
  from d p show ?thesis by simp
qed

theorem C3_not_owner_witness:
  "auth_user bobs_chat_env = Some alice \<and> \<not> auth_error bobs_chat_env
   \<and> db_getChatById bobs_chat_env (effects start) ''chat-1'' = Inr (Some bobs_chat)
   \<and> chat_user_id bobs_chat \<noteq> user_id alice
   \<and> req_id demo_request = ''chat-1''
   \<and> DELETE bobs_chat_env (Some ''chat-1'') start = (Return (Response ''Unauthorized'' 401), start)
   \<and> POST bobs_chat_env demo_request start = (Return (Response ''Unauthorized'' 401), start)"
proof -
  have a: "auth_user bobs_chat_env = Some alice" and b: "\<not> auth_error bobs_chat_env"
    and c: "db_getChatById bobs_chat_env (effects start) ''chat-1'' = Inr (Some bobs_chat)"
    and d: "chat_user_id bobs_chat \<noteq> user_id alice"
    and e: "''chat-1'' \<noteq> []" and f: "req_id demo_request = ''chat-1''"
    by (simp_all add: demo_defs)
  have g: "find_model bobs_chat_env (req_modelId demo_request) \<noteq> None"
    and h: "lib_getMostRecentUserMessage bobs_chat_env
              (lib_convertToCoreMessages bobs_chat_env (req_messages demo_request)) \<noteq> None"
    by (simp_all add: demo_defs)
  from C3_not_owner_rejected[OF a b c d e f] a b c d f g h show ?thesis by simp
qed

section \<open>A chat id that already exists\<close>

text \<open>
  C8. The claim: when saving the new chat fails with \<open>Chat ID already exists\<close>, the
  handler does not fail the request and persists the user's message under the existing
  chat. The code: the \<^verbatim>\<open>catch\<close> saves the message and then the function ends; no
  response is returned, no multiplexer is created and the model is not called.
\<close>

theorem C8_conflict_saves_message_without_response:
  "POST conflict_env demo_request start =
     (Return NoResponse,
      \<lparr>effects =
         [CallGenerateTitle (UserMessage (UserText ''hello'')),
          CallSaveChat \<lparr>sc_id = ''chat-1'', sc_userId = ''alice'', sc_title = ''Greeting''\<rparr>,
          ConsoleError ''Error in chat route:'' (Error ''Chat ID already exists''),
          CallSaveMessages ''chat-1''
            [\<lparr>msg_id = ''id-'', msg_chat_id = ''chat-1'', msg_role = ''user'',
              msg_content = ''hello'', msg_created_at = ''t-''\<rparr>]],
       uuids_taken = 1, clock_reads = 1\<rparr>)"
  by (simp add: demo_defs POST_def saveUserMessage_def prog_defs)

section \<open>The loops of the tools\<close>

lemma read_text_stream_run:
  "read_text_stream chunks draftText s =
     (Return (draftText @ concat (text_deltas chunks)),
      s\<lparr>effects := effects s @ map text_delta_event (text_deltas chunks)\<rparr>)"
proof (induction chunks draftText arbitrary: s rule: read_text_stream.induct)
  case (1 draftText)
  show ?case by (simp add: ret_def)
next
  case (2 textDelta rest draftText)
  show ?case by (simp add: "2.IH" await_def emit_def text_delta_event_def)
next
  case (3 other rest draftText)
  show ?case by (simp add: "3.IH")
qed

lemma read_element_stream_run:
  "read_element_stream env documentId els suggestions s =
     (Return (suggestions @ suggestions_from env documentId (uuids_taken s) els),
      s\<lparr>effects := effects s @ map suggestion_event (suggestions_from env documentId (uuids_taken s) els),
        uuids_taken := uuids_taken s + length els\<rparr>)"
proof (induction els arbitrary: suggestions s)
  case Nil
  show ?case by (simp add: ret_def)
next
  case (Cons el rest)
  show ?case
    by (simp add: Cons.IH await_def emit_def generateUUID_def suggestion_event_def)
qed

lemma suggestion_rows_run:
  "suggestion_rows env userId documentCreatedAt sgs s =
     (Return (rows_from env userId documentCreatedAt (clock_reads s) sgs),
      s\<lparr>clock_reads := clock_reads s + length sgs\<rparr>)"
proof (induction sgs arbitrary: s)
  case Nil
  show ?case by (simp add: ret_def)
next
  case (Cons sg rest)
  show ?case by (simp add: Cons.IH await_def now_def ret_def)
qed

lemma length_suggestions_from: "length (suggestions_from env documentId n els) = length els"
  by (induction els arbitrary: n) simp_all

lemma filter_multiplexer_text_deltas:
  "filter is_multiplexer (map text_delta_event ds) = map text_delta_event ds"
  by (induction ds) (simp_all add: text_delta_event_def)

lemma filter_suggestion_events:
  "filter is_suggestion_event (map suggestion_event sgs) = map suggestion_event sgs"
  by (induction sgs) (simp_all add: suggestion_event_def)

lemma createDocument_run:
  assumes "text_stream env
             (effects s @ [Append \<lparr>ev_type = ''id'', ev_content = TextContent (uuid_source env (uuids_taken s))\<rparr>,
                           Append \<lparr>ev_type = ''title'', ev_content = TextContent title\<rparr>,
                           Append \<lparr>ev_type = ''clear'', ev_content = TextContent ''''\<rparr>])
             (model_apiIdentifier model) createDocument_instruction (Prompt title) = (chunks, None)"
    and "user_id user \<noteq> []"
    and "\<forall>h a. db_saveDocument env h a = None"
  shows "createDocument_execute env user model title s =
     (Return (JObj [(''id'', JStr (uuid_source env (uuids_taken s))), (''title'', JStr title),
                    (''content'', JStr ''A document was created and is now visible to the user.'')]),
      s\<lparr>effects := effects s
           @ [Append \<lparr>ev_type = ''id'', ev_content = TextContent (uuid_source env (uuids_taken s))\<rparr>,
              Append \<lparr>ev_type = ''title'', ev_content = TextContent title\<rparr>,
              Append \<lparr>ev_type = ''clear'', ev_content = TextContent ''''\<rparr>,
              CallStreamText (model_apiIdentifier model) createDocument_instruction (Prompt title)]
           @ map text_delta_event (text_deltas chunks)
           @ [Append \<lparr>ev_type = ''finish'', ev_content = TextContent ''''\<rparr>,
              CallSaveDocument \<lparr>sd_id = uuid_source env (uuids_taken s), sd_title = title,
                                sd_content = concat (text_deltas chunks), sd_userId = user_id user\<rparr>],
        uuids_taken := Suc (uuids_taken s)\<rparr>)"
  using assms
  by (simp add: createDocument_execute_def for_await_text_def read_text_stream_run
      await_def ret_def emit_def generateUUID_def streamText_def request_def saveDocument_def
      mutation_def user_and_id_def)

section \<open>createDocument\<close>

text \<open>
  C6. \<^verbatim>\<open>createDocument\<close> with title \<open>title\<close>, when the nested generation yields \<open>chunks\<close>
  and completes, the user has an id and the store accepts the document. The run adds, in
  this order: the \<open>id\<close> event with the identifier just taken from \<^verbatim>\<open>generateUUID\<close>, the
  \<open>title\<close> event with \<open>title\<close>, the \<open>clear\<close> event, the call of the nested generation, one
  \<open>text-delta\<close> event per text delta in the order of generation, the \<open>finish\<close> event, and
  the save of a document with that id, the concatenated deltas as content and the
  requesting user as owner. The multiplexer sees exactly the events of this list. The
  result holds the id, the title and a fixed sentence, not the generated content.
\<close>

theorem C6_createDocument_events_and_row:
  assumes "\<forall>h. text_stream env h (model_apiIdentifier model) createDocument_instruction (Prompt title)
               = (chunks, None)"
    and "user_id user \<noteq> []"
    and "\<forall>h a. db_saveDocument env h a = None"
  shows "createDocument_execute env user model title s =
     (Return (JObj [(''id'', JStr (uuid_source env (uuids_taken s))), (''title'', JStr title),
                    (''content'', JStr ''A document was created and is now visible to the user.'')]),
      s\<lparr>effects := effects s
           @ [Append \<lparr>ev_type = ''id'', ev_content = TextContent (uuid_source env (uuids_taken s))\<rparr>,
              Append \<lparr>ev_type = ''title'', ev_content = TextContent title\<rparr>,
              Append \<lparr>ev_type = ''clear'', ev_content = TextContent ''''\<rparr>,
              CallStreamText (model_apiIdentifier model) createDocument_instruction (Prompt title)]
           @ map text_delta_event (text_deltas chunks)
           @ [Append \<lparr>ev_type = ''finish'', ev_content = TextContent ''''\<rparr>,
              CallSaveDocument \<lparr>sd_id = uuid_source env (uuids_taken s), sd_title = title,
                                sd_content = concat (text_deltas chunks), sd_userId = user_id user\<rparr>],
        uuids_taken := Suc (uuids_taken s)\<rparr>)
   \<and> filter is_multiplexer (new_effects (createDocument_execute env user model title) s) =
       [Append \<lparr>ev_type = ''id'', ev_content = TextContent (uuid_source env (uuids_taken s))\<rparr>,
        Append \<lparr>ev_type = ''title'', ev_content = TextContent title\<rparr>,
        Append \<lparr>ev_type = ''clear'', ev_content = TextContent ''''\<rparr>]
       @ map text_delta_event (text_deltas chunks)
       @ [Append \<lparr>ev_type = ''finish'', ev_content = TextContent ''''\<rparr>]"
proof -
  have run: "createDocument_execute env user model title s =
     (Return (JObj [(''id'', JStr (uuid_source env (uuids_taken s))), (''title'', JStr title),
                    (''content'', JStr ''A document was created and is now visible to the user.'')]),
      s\<lparr>effects := effects s
           @ [Append \<lparr>ev_type = ''id'', ev_content = TextContent (uuid_source env (uuids_taken s))\<rparr>,
              Append \<lparr>ev_type = ''title'', ev_content = TextContent title\<rparr>,
              Append \<lparr>ev_type = ''clear'', ev_content = TextContent ''''\<rparr>,
              CallStreamText (model_apiIdentifier model) createDocument_instruction (Prompt title)]
           @ map text_delta_event (text_deltas chunks)
           @ [Append \<lparr>ev_type = ''finish'', ev_content = TextContent ''''\<rparr>,
              CallSaveDocument \<lparr>sd_id = uuid_source env (uuids_taken s), sd_title = title,
                                sd_content = concat (text_deltas chunks), sd_userId = user_id user\<rparr>],
        uuids_taken := Suc (uuids_taken s)\<rparr>)"
    using assms by (intro createDocument_run) simp_all
  show ?thesis
    by (rule conjI, rule run) (simp add: new_effects_def run filter_multiplexer_text_deltas)
qed

theorem C6_createDocument_witness:
  "(\<forall>h. text_stream demo_env h (model_apiIdentifier gpt) createDocument_instruction (Prompt ''Plan'')
         = ([TextDelta ''# Plan'', OtherChunk ''step-finish'', TextDelta ''Step one.''], None))
   \<and> user_id alice \<noteq> []
   \<and> (\<forall>h a. db_saveDocument demo_env h a = None)
   \<and> createDocument_execute demo_env alice gpt ''Plan'' start =
       (Return (JObj [(''id'', JStr ''id-''), (''title'', JStr ''Plan''),
                      (''content'', JStr ''A document was created and is now visible to the user.'')]),
        \<lparr>effects =
           [Append \<lparr>ev_type = ''id'', ev_content = TextContent ''id-''\<rparr>,
            Append \<lparr>ev_type = ''title'', ev_content = TextContent ''Plan''\<rparr>,
            Append \<lparr>ev_type = ''clear'', ev_content = TextContent ''''\<rparr>,
            CallStreamText ''gpt-4o'' createDocument_instruction (Prompt ''Plan''),
            Append \<lparr>ev_type = ''text-delta'', ev_content = TextContent ''# Plan''\<rparr>,
            Append \<lparr>ev_type = ''text-delta'', ev_content = TextContent ''Step one.''\<rparr>,
            Append \<lparr>ev_type = ''finish'', ev_content = TextContent ''''\<rparr>,
            CallSaveDocument \<lparr>sd_id = ''id-'', sd_title = ''Plan'', sd_content = ''# PlanStep one.'',
                              sd_userId = ''alice''\<rparr>],
         uuids_taken = 1, clock_reads = 0\<rparr>)"
proof -
  have a: "\<forall>h. text_stream demo_env h (model_apiIdentifier gpt) createDocument_instruction (Prompt ''Plan'')
         = ([TextDelta ''# Plan'', OtherChunk ''step-finish'', TextDelta ''Step one.''], None)"
    by (simp add: demo_defs)
  have b: "user_id alice \<noteq> []" by (simp add: demo_defs)
  have c: "\<forall>h a. db_saveDocument demo_env h a = None" by (simp add: demo_defs)
  have d: "uuid_source demo_env 0 = ''id-''" by (simp add: demo_defs)
  from C6_createDocument_events_and_row[OF a b c, of start] a b c show ?thesis
    by (simp add: start_def d text_delta_event_def alice_def gpt_def)
qed

section \<open>requestSuggestions\<close>

lemma requestSuggestions_no_document:
  assumes "db_getDocumentById env (effects s) documentId = Inr None
           \<or> (\<exists>d. db_getDocumentById env (effects s) documentId = Inr (Some d)
                   \<and> (doc_content d = None \<or> doc_content d = Some []))"
  shows "requestSuggestions_execute env user model documentId s =
           (Return (JObj [(''error'', JStr ''Document not found'')]), s)"
  using assms
  by (auto simp: requestSuggestions_execute_def getDocumentById_def request_def await_def ret_def)

lemma requestSuggestions_run:
  assumes "db_getDocumentById env (effects s) documentId = Inr (Some d)"
    and "doc_content d = Some content" and "content \<noteq> []"
    and "\<forall>h. element_stream env h (model_apiIdentifier model) requestSuggestions_instruction content
             = (els, None)"
    and "user_id user \<noteq> []"
    and "\<forall>h rows. db_saveSuggestions env h rows = None"
  shows "requestSuggestions_execute env user model documentId s =
     (Return (JObj [(''id'', JStr documentId), (''title'', JStr (doc_title d)),
                    (''message'', JStr ''Suggestions have been added to the document'')]),
      s\<lparr>effects := effects s
           @ [CallStreamObject (model_apiIdentifier model) requestSuggestions_instruction content]
           @ map suggestion_event (suggestions_from env documentId (uuids_taken s) els)
           @ [CallSaveSuggestions
                (rows_from env (user_id user) (doc_created_at d) (clock_reads s)
                   (suggestions_from env documentId (uuids_taken s) els))],
        uuids_taken := uuids_taken s + length els,
        clock_reads := clock_reads s + length els\<rparr>)"
  using assms
  by (simp add: requestSuggestions_execute_def getDocumentById_def request_def await_def ret_def
      streamObject_def for_await_elements_def read_element_stream_run suggestion_rows_run
      saveSuggestions_def mutation_def user_and_id_def length_suggestions_from)

text \<open>
  C7, as stated, fails on the bound: nothing in \<^verbatim>\<open>requestSuggestions\<close> counts the
  elements. For a document with content and a structured generation that yields six
  elements, six \<open>suggestion\<close> events are appended.
\<close>

theorem C7_counterexample_six_suggestions:
  "length (fst (element_stream six_elements_env
                  [CallStreamObject ''gpt-4o'' requestSuggestions_instruction ''It was a day.'']
                  ''gpt-4o'' requestSuggestions_instruction ''It was a day.'')) = 6
   \<and> length (filter is_suggestion_event
               (effects (snd (requestSuggestions_execute six_elements_env alice gpt ''doc-1'' start)))) = 6"
proof -
  define els where "els = [an_element, an_element, an_element, an_element, an_element, an_element]"
  have a: "db_getDocumentById six_elements_env (effects start) ''doc-1'' = Inr (Some essay)"
    and b: "doc_content essay = Some ''It was a day.''" and c: "''It was a day.'' \<noteq> []"
    and d: "\<forall>h. element_stream six_elements_env h (model_apiIdentifier gpt)
                  requestSuggestions_instruction ''It was a day.'' = (els, None)"
    and e: "user_id alice \<noteq> []"
    and f: "\<forall>h rows. db_saveSuggestions six_elements_env h rows = None"
    by (simp_all add: six_elements_env_def essay_def demo_defs els_def)
  have six: "length els = 6"
    by (simp add: els_def)
  have yielded: "length (fst (element_stream six_elements_env
                  [CallStreamObject ''gpt-4o'' requestSuggestions_instruction ''It was a day.'']
                  ''gpt-4o'' requestSuggestions_instruction ''It was a day.'')) = 6"
    by (simp add: six_elements_env_def)
  have "length (filter is_suggestion_event
               (effects (snd (requestSuggestions_execute six_elements_env alice gpt ''doc-1'' start))))
        = length els"
    by (simp add: requestSuggestions_run[OF a b c d e f] filter_suggestion_events
        length_suggestions_from effects_start)
  with six yielded show ?thesis by simp
qed

text \<open>
  C7, amended. When the document is absent or has no content, \<^verbatim>\<open>requestSuggestions\<close>
  returns the error result and the state is as before. Otherwise, when the structured
  generation yields the elements \<open>els\<close> (however many: the bound of five is only asked of
  the model, in the last sentence of the system instruction) and completes, the user has
  an id and the store accepts the batch: the run adds the call of the generation, then
  one \<open>suggestion\<close> event per element, in order, each with the identifier taken from
  \<^verbatim>\<open>generateUUID\<close> for it and \<open>isResolved\<close> false, and after the last event one single save
  of the rows of all these suggestions.
\<close>

theorem C7_requestSuggestions_events_and_batch:
  "(db_getDocumentById env (effects s) documentId = Inr None
      \<or> (\<exists>d. db_getDocumentById env (effects s) documentId = Inr (Some d)
              \<and> (doc_content d = None \<or> doc_content d = Some []))
    \<longrightarrow> requestSuggestions_execute env user model documentId s =
          (Return (JObj [(''error'', JStr ''Document not found'')]), s))
   \<and> (db_getDocumentById env (effects s) documentId = Inr (Some d)
      \<and> doc_content d = Some content \<and> content \<noteq> []
      \<and> (\<forall>h. element_stream env h (model_apiIdentifier model) requestSuggestions_instruction content
               = (els, None))
      \<and> user_id user \<noteq> []
      \<and> (\<forall>h rows. db_saveSuggestions env h rows = None)
    \<longrightarrow> requestSuggestions_execute env user model documentId s =
          (Return (JObj [(''id'', JStr documentId), (''title'', JStr (doc_title d)),
                         (''message'', JStr ''Suggestions have been added to the document'')]),
           s\<lparr>effects := effects s
                @ [CallStreamObject (model_apiIdentifier model) requestSuggestions_instruction content]
                @ map suggestion_event (suggestions_from env documentId (uuids_taken s) els)
                @ [CallSaveSuggestions
                     (rows_from env (user_id user) (doc_created_at d) (clock_reads s)
                        (suggestions_from env documentId (uuids_taken s) els))],
             uuids_taken := uuids_taken s + length els,
             clock_reads := clock_reads s + length els\<rparr>)
        \<and> list_all (\<lambda>sg. \<not> sg_isResolved sg) (suggestions_from env documentId (uuids_taken s) els)
        \<and> map sg_id (suggestions_from env documentId (uuids_taken s) els) =
            map (uuid_source env) [uuids_taken s ..< uuids_taken s + length els])"
proof -
  have unresolved: "list_all (\<lambda>sg. \<not> sg_isResolved sg) (suggestions_from env documentId n els)" for n
    by (induction els arbitrary: n) simp_all
  have ids: "map sg_id (suggestions_from env documentId n els) = map (uuid_source env) [n ..< n + length els]" for n
    by (induction els arbitrary: n) (simp_all add: upt_rec)
  show ?thesis
    using requestSuggestions_no_document[of env s documentId user model]
      requestSuggestions_run[of env s documentId d content model els user]
      unresolved ids
    by blast
qed

theorem C7_requestSuggestions_witness:
  "db_getDocumentById demo_env (effects start) ''doc-1'' = Inr None
   \<and> requestSuggestions_execute demo_env alice gpt ''doc-1'' start =
       (Return (JObj [(''error'', JStr ''Document not found'')]), start)
   \<and> db_getDocumentById six_elements_env (effects start) ''doc-1'' = Inr (Some essay)
   \<and> doc_content essay = Some ''It was a day.'' \<and> ''It was a day.'' \<noteq> []
   \<and> (\<forall>h. element_stream six_elements_env h (model_apiIdentifier gpt) requestSuggestions_instruction
            ''It was a day.''
          = ([an_element, an_element, an_element, an_element, an_element, an_element], None))
   \<and> user_id alice \<noteq> []
   \<and> (\<forall>h rows. db_saveSuggestions six_elements_env h rows = None)
   \<and> fst (requestSuggestions_execute six_elements_env alice gpt ''doc-1'' start) =
       Return (JObj [(''id'', JStr ''doc-1''), (''title'', JStr ''Essay''),
                     (''message'', JStr ''Suggestions have been added to the document'')])
   \<and> map sg_id (suggestions_from six_elements_env ''doc-1'' (uuids_taken start)
                   [an_element, an_element, an_element, an_element, an_element, an_element]) =
       map (uuid_source six_elements_env) [0 ..< 6]"
proof -
  have a: "db_getDocumentById demo_env (effects start) ''doc-1'' = Inr None"
    by (simp add: demo_defs)
  have b: "db_getDocumentById six_elements_env (effects start) ''doc-1'' = Inr (Some essay)"
    and c: "doc_content essay = Some ''It was a day.''" and d: "''It was a day.'' \<noteq> []"
    and e: "\<forall>h. element_stream six_elements_env h (model_apiIdentifier gpt) requestSuggestions_instruction
                  ''It was a day.''
                = ([an_element, an_element, an_element, an_element, an_element, an_element], None)"
    and f: "user_id alice \<noteq> []"
    and g: "\<forall>h rows. db_saveSuggestions six_elements_env h rows = None"
    by (simp_all add: six_elements_env_def essay_def demo_defs)
  have t: "doc_title essay = ''Essay''" and n: "uuids_taken start = 0"
    by (simp_all add: essay_def start_def)
  from C7_requestSuggestions_events_and_batch[of demo_env start "''doc-1''" alice gpt] a
  have first: "requestSuggestions_execute demo_env alice gpt ''doc-1'' start =
       (Return (JObj [(''error'', JStr ''Document not found'')]), start)"
    by blast
  from C7_requestSuggestions_events_and_batch[of six_elements_env start "''doc-1''" alice gpt essay
      "''It was a day.''" "[an_element, an_element, an_element, an_element, an_element, an_element]"]
    b c d e f g
  have second: "fst (requestSuggestions_execute six_elements_env alice gpt ''doc-1'' start) =
       Return (JObj [(''id'', JStr ''doc-1''), (''title'', JStr (doc_title essay)),
                     (''message'', JStr ''Suggestions have been added to the document'')])"
    and third: "map sg_id (suggestions_from six_elements_env ''doc-1'' (uuids_taken start)
                   [an_element, an_element, an_element, an_element, an_element, an_element]) =
       map (uuid_source six_elements_env)
         [uuids_taken start ..< uuids_taken start
            + length [an_element, an_element, an_element, an_element, an_element, an_element]]"
    by simp_all
  from third n have third': "map sg_id (suggestions_from six_elements_env ''doc-1'' (uuids_taken start)
                   [an_element, an_element, an_element, an_element, an_element, an_element]) =
       map (uuid_source six_elements_env) [0 ..< 6]"
    by (simp add: eval_nat_numeral upt_rec)
  from a first b c d e f g second t third' show ?thesis
    by simp
qed

section \<open>What a program adds to the effects\<close>

lemma addsI: "(\<And>s. \<exists>new. effects (snd (m s)) = effects s @ new \<and> list_all P new) \<Longrightarrow> adds P m"
  by (simp add: adds_def)

lemma addsD: "adds P m \<Longrightarrow> m s = (r, s') \<Longrightarrow> \<exists>new. effects s' = effects s @ new \<and> list_all P new"
  by (auto simp: adds_def dest: spec[where x = s])

lemma adds_ret: "adds P (ret x)"
  by (simp add: adds_def ret_def)

lemma adds_throw: "adds P (throw e)"
  by (simp add: adds_def throw_def)

lemma adds_emit: "P e \<Longrightarrow> adds P (emit e)"
  by (simp add: adds_def emit_def)

lemma adds_generateUUID: "adds P (generateUUID env)"
  by (simp add: adds_def generateUUID_def)

lemma adds_now: "adds P (now env)"
  by (simp add: adds_def now_def)

lemma adds_mutation: "P c \<Longrightarrow> adds P (mutation c answer)"
  by (simp add: adds_def mutation_def split: option.split)

lemma adds_request_None: "adds P (request None answer)"
  by (simp add: adds_def request_def Let_def split: sum.split)

lemma adds_request_Some: "P c \<Longrightarrow> adds P (request (Some c) answer)"
  by (simp add: adds_def request_def Let_def split: sum.split)

lemma adds_await:
  assumes "adds P m" and "\<And>x. adds P (f x)"
  shows "adds P (await m f)"
proof (rule addsI)
  fix s
  obtain r s1 where ms: "m s = (r, s1)" by (cases "m s")
  from addsD[OF assms(1) ms] obtain new1 where n1: "effects s1 = effects s @ new1" "list_all P new1"
    by blast
  show "\<exists>new. effects (snd (await m f s)) = effects s @ new \<and> list_all P new"
  proof (cases r)
    case (Return x)
    obtain r2 s2 where fs: "f x s1 = (r2, s2)" by (cases "f x s1")
    from addsD[OF assms(2) fs] obtain new2 where "effects s2 = effects s1 @ new2" "list_all P new2"
      by blast
    then show ?thesis using ms Return n1 fs by (simp add: await_def)
  next
    case (Throw e)
    then show ?thesis using ms n1 by (simp add: await_def)
  qed
qed

lemma adds_try_catch:
  assumes "adds P m" and "\<And>e. adds P (h e)"
  shows "adds P (try_catch m h)"
proof (rule addsI)
  fix s
  obtain r s1 where ms: "m s = (r, s1)" by (cases "m s")
  from addsD[OF assms(1) ms] obtain new1 where n1: "effects s1 = effects s @ new1" "list_all P new1"
    by blast
  show "\<exists>new. effects (snd (try_catch m h s)) = effects s @ new \<and> list_all P new"
  proof (cases r)
    case (Return x)
    then show ?thesis using ms n1 by (simp add: try_catch_def)
  next
    case (Throw e)
    obtain r2 s2 where hs: "h e s1 = (r2, s2)" by (cases "h e s1")
    from addsD[OF assms(2) hs] obtain new2 where "effects s2 = effects s1 @ new2" "list_all P new2"
      by blast
    then show ?thesis using ms Throw n1 hs by (simp add: try_catch_def)
  qed
qed

lemmas adds_intros = adds_ret adds_throw adds_emit adds_generateUUID adds_now adds_mutation
  adds_request_None adds_request_Some adds_await adds_try_catch

lemma adds_read_text_stream: "adds tool_effect (read_text_stream chunks draftText)"
  by (induction chunks draftText rule: read_text_stream.induct) (auto intro!: adds_intros)

lemma adds_for_await_text: "adds tool_effect (for_await_text fullStream)"
  unfolding for_await_text_def
  by (auto intro!: adds_intros adds_read_text_stream split: option.split)

lemma adds_read_element_stream: "adds tool_effect (read_element_stream env documentId els sgs)"
  by (induction els arbitrary: sgs) (auto intro!: adds_intros)

lemma adds_for_await_elements: "adds tool_effect (for_await_elements env documentId elementStream)"
  unfolding for_await_elements_def
  by (auto intro!: adds_intros adds_read_element_stream split: option.split)

lemma adds_suggestion_rows: "adds tool_effect (suggestion_rows env userId created sgs)"
  by (induction sgs) (auto intro!: adds_intros)

lemma adds_getWeather: "adds tool_effect (getWeather_execute env latitude longitude)"
  unfolding getWeather_execute_def by (auto intro!: adds_intros)

lemma adds_createDocument: "adds tool_effect (createDocument_execute env user model title)"
  unfolding createDocument_execute_def streamText_def saveDocument_def
  by (auto intro!: adds_intros adds_for_await_text)

lemma adds_updateDocument: "adds tool_effect (updateDocument_execute env user model docId description)"
  unfolding updateDocument_execute_def streamText_def saveDocument_def getDocumentById_def
  by (auto intro!: adds_intros adds_for_await_text split: option.split)

lemma adds_requestSuggestions: "adds tool_effect (requestSuggestions_execute env user model documentId)"
  unfolding requestSuggestions_execute_def streamObject_def saveSuggestions_def getDocumentById_def
  by (auto intro!: adds_intros adds_for_await_elements adds_suggestion_rows split: option.split)

lemma adds_execute_tool: "adds tool_effect (execute_tool env user model input)"
  by (cases input)
     (simp_all add: adds_getWeather adds_createDocument adds_updateDocument adds_requestSuggestions)

lemma adds_execute_tools: "adds tool_effect (execute_tools env user model calls)"
  by (induction calls) (auto intro!: adds_intros adds_execute_tool)

lemma adds_response_rows: "adds finish_effect (response_rows env chatId messages)"
  by (induction messages) (auto intro!: adds_intros)

lemma tool_effects_no_generate: "list_all tool_effect new \<Longrightarrow> filter is_generate new = []"
  by (induction new) (auto elim: tool_effect.elims)

lemma tool_effects_no_close: "list_all tool_effect new \<Longrightarrow> filter is_close new = []"
  by (induction new) (auto elim: tool_effect.elims)

lemma finish_effects_no_generate: "list_all finish_effect new \<Longrightarrow> filter is_generate new = []"
  by (induction new) (auto elim: finish_effect.elims)

lemma finish_effects_no_close: "list_all finish_effect new \<Longrightarrow> filter is_close new = []"
  by (induction new) (auto elim: finish_effect.elims)

section \<open>The generation loop and the finish callback\<close>

lemma generate_run:
  "generate env model messages s =
     (case language_model env (effects s) (model_apiIdentifier model) (systemPrompt env) messages of
        Reply t calls \<Rightarrow> Return (t, calls)
      | ProviderFailure e \<Rightarrow> Throw e,
      s\<lparr>effects := effects s @ [Generate (model_apiIdentifier model) (systemPrompt env) messages]\<rparr>)"
  by (simp add: generate_def request_def split: model_reply.split)

text \<open>
  A loop with \<open>steps\<close> steps left calls the model at most \<open>steps\<close> times; everything
  else it adds is an effect of a tool.
\<close>

lemma generation_loop_effects:
  "\<exists>new. effects (snd (generation_loop env user model steps messages responseMessages s)) = effects s @ new
         \<and> length (filter is_generate new) \<le> steps
         \<and> filter is_close new = []"
proof (induction steps arbitrary: messages responseMessages s)
  case 0
  show ?case by (simp add: ret_def)
next
  case (Suc steps)
  let ?g = "Generate (model_apiIdentifier model) (systemPrompt env) messages"
  let ?s1 = "s\<lparr>effects := effects s @ [?g]\<rparr>"
  show ?case
  proof (cases "language_model env (effects s) (model_apiIdentifier model) (systemPrompt env) messages")
    case (ProviderFailure e)
    then show ?thesis by (simp add: await_def generate_run)
  next
    case (Reply t calls)
    show ?thesis
    proof (cases "calls = []")
      case True
      with Reply show ?thesis by (simp add: await_def generate_run ret_def)
    next
      case False
      obtain r s2 where tools: "execute_tools env user model calls ?s1 = (r, s2)"
        by (cases "execute_tools env user model calls ?s1")
      from addsD[OF adds_execute_tools tools] obtain new2
        where n2: "effects s2 = effects s @ [?g] @ new2" "list_all tool_effect new2"
        by auto
      note quiet = tool_effects_no_generate[OF n2(2)] tool_effects_no_close[OF n2(2)]
      show ?thesis
      proof (cases r)
        case (Throw e)
        with Reply False tools n2 quiet show ?thesis
          by (simp add: await_def generate_run)
      next
        case (Return results)
        let ?next = "[assistant_message t calls, ToolMessage results]"
        from Suc.IH[of "messages @ ?next" "responseMessages @ ?next" s2] obtain new3
          where n3: "effects (snd (generation_loop env user model steps (messages @ ?next)
                       (responseMessages @ ?next) s2)) = effects s2 @ new3"
            "length (filter is_generate new3) \<le> steps"
            "filter is_close new3 = []"
          by blast
        have "effects (snd (generation_loop env user model (Suc steps) messages responseMessages s))
              = effects s @ ([?g] @ new2 @ new3)"
          using Reply False tools Return n2 n3(1) by (simp add: await_def generate_run)
        moreover have "length (filter is_generate ([?g] @ new2 @ new3)) \<le> Suc steps"
          using quiet n3(2) by simp
        moreover have "filter is_close ([?g] @ new2 @ new3) = []"
          using quiet n3(3) by simp
        ultimately show ?thesis by blast
      qed
    qed
  qed
qed

text \<open>
  The finish callback returns (it never throws, whatever the save does), and the last
  thing it does is the one close.
\<close>

lemma onFinish_closes_last:
  "\<exists>mid. onFinish env user chatId responseMessages s =
           (Return (), (snd (onFinish env user chatId responseMessages s)))
         \<and> effects (snd (onFinish env user chatId responseMessages s)) = effects s @ mid @ [Close]
         \<and> list_all finish_effect mid"
proof -
  let ?save = "try_catch
                 (await (response_rows env chatId (lib_sanitizeResponseMessages env responseMessages))
                    (\<lambda>rows. saveMessages env chatId rows))
                 (\<lambda>error. emit (ConsoleError ''Failed to save chat:'' error))"
  let ?inner = "if user_and_id user then ?save else ret ()"
  have "adds finish_effect ?inner"
    by (auto intro!: adds_intros adds_response_rows simp: saveMessages_def)
  moreover obtain r s1 where inner: "?inner s = (r, s1)"
    by (cases "?inner s")
  ultimately obtain mid where mid: "effects s1 = effects s @ mid" "list_all finish_effect mid"
    by (blast dest: addsD)
  have "r = Return ()"
    using inner
    by (auto simp: try_catch_def emit_def ret_def split: if_splits prod.splits outcome.splits)
  with inner have "onFinish env user chatId responseMessages s =
      (Return (), s1\<lparr>effects := effects s1 @ [Close]\<rparr>)"
    by (simp add: onFinish_def await_def emit_def)
  with mid show ?thesis by simp
qed

section \<open>A whole turn\<close>

lemma route_effects_quiet:
  assumes "list_all route_effect xs"
  shows "filter is_generate xs = []" and "filter is_multiplexer xs = []"
    and "filter is_close xs = []"
  using assms by (induction xs) (auto elim: route_effect.elims)

lemma closes_nonempty: "filter is_close new = [Close] \<Longrightarrow> new \<noteq> []"
  by auto

lemma turn_property_after:
  assumes "list_all route_effect pre" and "turn_property r new"
  shows "turn_property r (pre @ new)"
proof -
  note quiet = route_effects_quiet[OF assms(1)]
  have "closes r (pre @ new)"
  proof (cases r)
    case (Throw e)
    with assms(2) quiet show ?thesis by (simp add: turn_property_def)
  next
    case (Return x)
    with assms(2) quiet show ?thesis
      by (cases x) (auto simp: turn_property_def dest: closes_nonempty)
  qed
  with assms(2) quiet show ?thesis
    by (simp add: turn_property_def)
qed

lemma turn_property_caught:
  assumes "turn_property (Throw e) new" and "list_all route_effect post"
    and "r = Return NoResponse \<or> (\<exists>e'. r = Throw e')"
  shows "turn_property r (new @ post)"
  using assms route_effects_quiet[OF assms(2)]
  by (auto simp: turn_property_def)

lemma turn_property_quiet:
  assumes "list_all route_effect new" and "r \<noteq> Return StreamResponse"
  shows "turn_property r new"
proof -
  note quiet = route_effects_quiet[OF assms(1)]
  have "closes r new"
  proof (cases r)
    case (Throw e)
    with quiet show ?thesis by simp
  next
    case (Return x)
    with quiet assms(2) show ?thesis by (cases x) simp_all
  qed
  with quiet show ?thesis by (simp add: turn_property_def)
qed

text \<open>
  The main \<^verbatim>\<open>streamText\<close>, read to its end: when it returns, the finish callback has run
  and its close is the last effect; when it throws, nothing has been closed.
\<close>

lemma streamText_main_effects:
  "\<exists>new. effects (snd (streamText_main env user model chatId coreMessages s)) = effects s @ new
         \<and> length (filter is_generate new) \<le> maxSteps
         \<and> (case fst (streamText_main env user model chatId coreMessages s) of
               Return u \<Rightarrow> filter is_close new = [Close] \<and> last new = Close
             | Throw e \<Rightarrow> filter is_close new = [])"
proof -
  obtain r s1 where loop: "generation_loop env user model maxSteps coreMessages [] s = (r, s1)"
    by (cases "generation_loop env user model maxSteps coreMessages [] s")
  from generation_loop_effects[of env user model maxSteps coreMessages "[]" s] loop
  obtain new1 where n1: "effects s1 = effects s @ new1" "length (filter is_generate new1) \<le> maxSteps"
    "filter is_close new1 = []"
    by auto
  show ?thesis
  proof (cases r)
    case (Throw e)
    with loop n1 show ?thesis
      by (simp add: streamText_main_def await_def)
  next
    case (Return responseMessages)
    from onFinish_closes_last[of env user chatId responseMessages s1] obtain mid
      where fin: "onFinish env user chatId responseMessages s1 =
                    (Return (), snd (onFinish env user chatId responseMessages s1))"
        "effects (snd (onFinish env user chatId responseMessages s1)) = effects s1 @ mid @ [Close]"
        "list_all finish_effect mid"
      by blast
    have main: "streamText_main env user model chatId coreMessages s =
                  onFinish env user chatId responseMessages s1"
      using loop Return by (simp add: streamText_main_def await_def)
    have "effects (snd (streamText_main env user model chatId coreMessages s))
            = effects s @ (new1 @ mid @ [Close])"
      using main fin(2) n1(1) by simp
    moreover have "fst (streamText_main env user model chatId coreMessages s) = Return ()"
      using main fin(1) by (metis fst_conv)
    moreover have "length (filter is_generate (new1 @ mid @ [Close])) \<le> maxSteps"
      using n1(2) finish_effects_no_generate[OF fin(3)] by simp
    moreover have "filter is_close (new1 @ mid @ [Close]) = [Close]"
      using n1(3) finish_effects_no_close[OF fin(3)] by simp
    moreover have "last (new1 @ mid @ [Close]) = Close"
      by simp
    ultimately show ?thesis by (intro exI[of _ "new1 @ mid @ [Close]"]) simp
  qed
qed

lemma saveUserMessage_run:
  "saveUserMessage env chatId userMessage s =
     (case db_saveMessages env (effects s) chatId
             [\<lparr>msg_id = uuid_source env (uuids_taken s), msg_chat_id = chatId,
               msg_role = message_role userMessage,
               msg_content = formatMessageContent (JSON_stringify env) userMessage,
               msg_created_at = clock env (clock_reads s)\<rparr>] of
        None \<Rightarrow> Return ()
      | Some e \<Rightarrow> Throw e,
      s\<lparr>effects := effects s @
           [CallSaveMessages chatId
              [\<lparr>msg_id = uuid_source env (uuids_taken s), msg_chat_id = chatId,
                msg_role = message_role userMessage,
                msg_content = formatMessageContent (JSON_stringify env) userMessage,
                msg_created_at = clock env (clock_reads s)\<rparr>]],
        uuids_taken := Suc (uuids_taken s), clock_reads := Suc (clock_reads s)\<rparr>)"
  by (simp add: saveUserMessage_def await_def generateUUID_def now_def saveMessages_def mutation_def
      split: option.split)

lemma adds_saveUserMessage: "adds route_effect (saveUserMessage env chatId userMessage)"
  unfolding saveUserMessage_def saveMessages_def by (auto intro!: adds_intros)

text \<open>
  Steps 4.6 to 4.11: the save of the user message throws, or the generation throws
  after the multiplexer has been created, or the streamed response is returned.
\<close>

lemma POST_generate_effects:
  "\<exists>new. effects (snd (POST_generate env user model chatId coreMessages userMessage s)) = effects s @ new
         \<and> turn_property (fst (POST_generate env user model chatId coreMessages userMessage s)) new"
proof -
  let ?row = "\<lparr>msg_id = uuid_source env (uuids_taken s), msg_chat_id = chatId,
               msg_role = message_role userMessage,
               msg_content = formatMessageContent (JSON_stringify env) userMessage,
               msg_created_at = clock env (clock_reads s)\<rparr>"
  let ?s1 = "s\<lparr>effects := effects s @ [CallSaveMessages chatId [?row]],
               uuids_taken := Suc (uuids_taken s), clock_reads := Suc (clock_reads s)\<rparr>"
  show ?thesis
  proof (cases "db_saveMessages env (effects s) chatId [?row]")
    case (Some e)
    then have "POST_generate env user model chatId coreMessages userMessage s = (Throw e, ?s1)"
      by (simp add: POST_generate_def await_def saveUserMessage_run)
    then show ?thesis
      by (simp add: turn_property_quiet)
  next
    case None
    let ?pre = "[CallSaveMessages chatId [?row], NewStreamData]"
    let ?s2 = "?s1\<lparr>effects := effects s @ ?pre\<rparr>"
    obtain r s3 where main: "streamText_main env user model chatId coreMessages ?s2 = (r, s3)"
      by (cases "streamText_main env user model chatId coreMessages ?s2")
    from streamText_main_effects[of env user model chatId coreMessages ?s2] main obtain new
      where n: "effects s3 = effects s @ (?pre @ new)"
        "length (filter is_generate new) \<le> maxSteps"
        "case r of Return u \<Rightarrow> filter is_close new = [Close] \<and> last new = Close
                 | Throw e \<Rightarrow> filter is_close new = []"
      by auto
    show ?thesis
    proof (cases r)
      case (Throw e)
      have run: "POST_generate env user model chatId coreMessages userMessage s = (Throw e, s3)"
        using None main Throw
        by (simp add: POST_generate_def await_def saveUserMessage_run emit_def)
      have "turn_property (Throw e) (?pre @ new)"
        using n(2,3) Throw by (simp add: turn_property_def)
      with n(1) run show ?thesis by auto
    next
      case (Return u)
      have run: "POST_generate env user model chatId coreMessages userMessage s = (Return StreamResponse, s3)"
        using None main Return
        by (simp add: POST_generate_def await_def saveUserMessage_run emit_def ret_def)
      from n(3) Return have c: "filter is_close new = [Close]" "last new = Close"
        by simp_all
      from c(1) have "new \<noteq> []" by (rule closes_nonempty)
      with c n(2) have "turn_property (Return StreamResponse) (?pre @ new)"
        by (simp add: turn_property_def)
      with n(1) run show ?thesis by auto
    qed
  qed
qed

text \<open>
  The \<^verbatim>\<open>catch\<close> of \<^verbatim>\<open>POST\<close> logs and saves at most; it rethrows or ends without a
  response.
\<close>

lemma POST_catch_effects:
  "\<exists>post. effects (snd (await (emit (ConsoleError ''Error in chat route:'' error))
                         (\<lambda>_. if error = Error ''Chat ID already exists''
                              then await (saveUserMessage env chatId userMessage) (\<lambda>_. ret NoResponse)
                              else throw error) s)) = effects s @ post
          \<and> list_all route_effect post
          \<and> (fst (await (emit (ConsoleError ''Error in chat route:'' error))
                    (\<lambda>_. if error = Error ''Chat ID already exists''
                         then await (saveUserMessage env chatId userMessage) (\<lambda>_. ret NoResponse)
                         else throw error) s) = Return NoResponse
             \<or> (\<exists>e'. fst (await (emit (ConsoleError ''Error in chat route:'' error))
                    (\<lambda>_. if error = Error ''Chat ID already exists''
                         then await (saveUserMessage env chatId userMessage) (\<lambda>_. ret NoResponse)
                         else throw error) s) = Throw e'))"
proof -
  let ?h = "await (emit (ConsoleError ''Error in chat route:'' error))
              (\<lambda>_. if error = Error ''Chat ID already exists''
                   then await (saveUserMessage env chatId userMessage) (\<lambda>_. ret NoResponse)
                   else throw error)"
  have "adds route_effect ?h"
    by (auto intro!: adds_intros adds_saveUserMessage)
  then obtain post where "effects (snd (?h s)) = effects s @ post" "list_all route_effect post"
    by (auto simp: adds_def dest: spec[where x = s])
  moreover have "fst (?h s) = Return NoResponse \<or> (\<exists>e'. fst (?h s) = Throw e')"
    by (simp add: await_def emit_def saveUserMessage_run ret_def throw_def split: option.split)
  ultimately show ?thesis by blast
qed

lemma try_catch_turn:
  assumes body: "\<exists>new. effects (snd (body s)) = effects s @ new \<and> turn_property (fst (body s)) new"
    and handler: "\<And>e s1. \<exists>post. effects (snd (h e s1)) = effects s1 @ post \<and> list_all route_effect post
                                 \<and> (fst (h e s1) = Return NoResponse \<or> (\<exists>e'. fst (h e s1) = Throw e'))"
  shows "\<exists>new. effects (snd (try_catch body h s)) = effects s @ new
               \<and> turn_property (fst (try_catch body h s)) new"
proof -
  obtain r s1 where b: "body s = (r, s1)" by (cases "body s")
  from body b obtain new where n: "effects s1 = effects s @ new" "turn_property r new"
    by auto
  show ?thesis
  proof (cases r)
    case (Return x)
    with b n show ?thesis by (simp add: try_catch_def)
  next
    case (Throw e)
    from handler[of e s1] obtain post where p: "effects (snd (h e s1)) = effects s1 @ post"
      "list_all route_effect post"
      "fst (h e s1) = Return NoResponse \<or> (\<exists>e'. fst (h e s1) = Throw e')"
      by blast
    have "turn_property (fst (h e s1)) (new @ post)"
      using n(2) p(2,3) Throw by (intro turn_property_caught[of e]) simp_all
    moreover have "effects (snd (h e s1)) = effects s @ (new @ post)"
      using p(1) n(1) by simp
    ultimately show ?thesis
      using b Throw by (auto simp: try_catch_def)
  qed
qed

text \<open>The \<^verbatim>\<open>try\<close> block of \<^verbatim>\<open>POST\<close>: the chat is found or created, then steps 4.6 to 4.11.\<close>

lemma POST_try_effects:
  "\<exists>new. effects (snd (await (getChatById env chatId) (\<lambda>found.
                 case found of
                   None \<Rightarrow>
                     await (generateTitleFromUserMessage env userMessage) (\<lambda>title.
                     await (saveChat env \<lparr>sc_id = chatId, sc_userId = user_id user, sc_title = title\<rparr>) (\<lambda>_.
                     POST_generate env user model chatId coreMessages userMessage))
                 | Some c \<Rightarrow>
                     if chat_user_id c \<noteq> user_id user then ret (Response ''Unauthorized'' 401)
                     else POST_generate env user model chatId coreMessages userMessage) s))
          = effects s @ new
        \<and> turn_property (fst (await (getChatById env chatId) (\<lambda>found.
                 case found of
                   None \<Rightarrow>
                     await (generateTitleFromUserMessage env userMessage) (\<lambda>title.
                     await (saveChat env \<lparr>sc_id = chatId, sc_userId = user_id user, sc_title = title\<rparr>) (\<lambda>_.
                     POST_generate env user model chatId coreMessages userMessage))
                 | Some c \<Rightarrow>
                     if chat_user_id c \<noteq> user_id user then ret (Response ''Unauthorized'' 401)
                     else POST_generate env user model chatId coreMessages userMessage) s)) new"
  (is "\<exists>new. effects (snd (?body s)) = effects s @ new \<and> turn_property (fst (?body s)) new")
proof (cases "db_getChatById env (effects s) chatId")
  case (Inl e)
  then have "?body s = (Throw e, s)"
    by (simp add: await_def getChatById_def request_def)
  then show ?thesis by (simp add: turn_property_quiet)
next
  case (Inr found)
  show ?thesis
  proof (cases found)
    case (Some c)
    show ?thesis
    proof (cases "chat_user_id c \<noteq> user_id user")
      case True
      with Inr Some have "?body s = (Return (Response ''Unauthorized'' 401), s)"
        by (simp add: await_def getChatById_def request_def ret_def)
      then show ?thesis by (simp add: turn_property_quiet)
    next
      case False
      with Inr Some have "?body s = POST_generate env user model chatId coreMessages userMessage s"
        by (simp add: await_def getChatById_def request_def)
      then show ?thesis using POST_generate_effects by simp
    qed
  next
    case None
    let ?s1 = "s\<lparr>effects := effects s @ [CallGenerateTitle userMessage]\<rparr>"
    show ?thesis
    proof (cases "title_action env (effects s) userMessage")
      case (Inl e)
      with Inr None have "?body s = (Throw e, ?s1)"
        by (simp add: await_def getChatById_def generateTitleFromUserMessage_def request_def)
      then show ?thesis by (simp add: turn_property_quiet)
    next
      case title: (Inr title)
      let ?args = "\<lparr>sc_id = chatId, sc_userId = user_id user, sc_title = title\<rparr>"
      let ?s2 = "s\<lparr>effects := effects s @ [CallGenerateTitle userMessage, CallSaveChat ?args]\<rparr>"
      show ?thesis
      proof (cases "db_saveChat env (effects ?s1) ?args")
        case (Some e)
        with Inr None title have "?body s = (Throw e, ?s2)"
          by (simp add: await_def getChatById_def generateTitleFromUserMessage_def request_def
              saveChat_def mutation_def)
        then show ?thesis by (simp add: turn_property_quiet)
      next
        case saved: None
        with Inr None title
        have run: "?body s = POST_generate env user model chatId coreMessages userMessage ?s2"
          by (simp add: await_def getChatById_def generateTitleFromUserMessage_def request_def
              saveChat_def mutation_def)
        from POST_generate_effects[of env user model chatId coreMessages userMessage ?s2]
        obtain new where n:
          "effects (snd (POST_generate env user model chatId coreMessages userMessage ?s2))
             = effects ?s2 @ new"
          "turn_property (fst (POST_generate env user model chatId coreMessages userMessage ?s2)) new"
          by blast
        have "turn_property (fst (?body s)) ([CallGenerateTitle userMessage, CallSaveChat ?args] @ new)"
          using n(2) run by (intro turn_property_after) simp_all
        moreover have "effects (snd (?body s))
                         = effects s @ ([CallGenerateTitle userMessage, CallSaveChat ?args] @ new)"
          using n(1) run by simp
        ultimately show ?thesis by blast
      qed
    qed
  qed
qed

text \<open>Every run of \<^verbatim>\<open>POST\<close> keeps the effects so far, and what it adds has the property of a turn.\<close>

lemma POST_effects:
  "\<exists>new. effects (snd (POST env req s)) = effects s @ new \<and> turn_property (fst (POST env req s)) new"
proof -
  from getUser_returns_or_throws_Unauthorized[of env s]
  show ?thesis
  proof
    assume "getUser env s = (Throw (Error ''Unauthorized''), s)"
    then have "POST env req s = (Throw (Error ''Unauthorized''), s)"
      by (simp add: POST_def await_def)
    then show ?thesis by (simp add: turn_property_quiet)
  next
    assume "\<exists>u. getUser env s = (Return u, s)"
    then obtain u where u: "getUser env s = (Return u, s)" by blast
    show ?thesis
    proof (cases "find_model env (req_modelId req)")
      case None
      with u have "POST env req s = (Return (Response ''Model not found'' 404), s)"
        by (simp add: POST_def await_def ret_def)
      then show ?thesis by (simp add: turn_property_quiet)
    next
      case (Some model)
      show ?thesis
      proof (cases "lib_getMostRecentUserMessage env (lib_convertToCoreMessages env (req_messages req))")
        case None
        with u Some have "POST env req s = (Return (Response ''No user message found'' 400), s)"
          by (simp add: POST_def await_def ret_def)
        then show ?thesis by (simp add: turn_property_quiet)
      next
        case userMessage: (Some userMessage)
        show ?thesis
          using u Some userMessage
          by (simp add: POST_def await_def)
             (rule try_catch_turn, rule POST_try_effects, rule POST_catch_effects)
      qed
    qed
  qed
qed

lemma new_effects_eq: "effects (snd (m s)) = effects s @ new \<Longrightarrow> new_effects m s = new"
  by (simp add: new_effects_def)

section \<open>The step bound\<close>

text \<open>
  C5. The route passes \<^verbatim>\<open>maxSteps: 5\<close>. Whatever the model answers, the generation loop
  of a turn calls it at most five times, and so does a whole POST request: among the
  effects that the request adds there are at most five GENERATE rounds.
\<close>

theorem C5_at_most_five_generate_rounds:
  "maxSteps = 5
   \<and> length (filter is_generate
        (new_effects (generation_loop env user model maxSteps messages responseMessages) s)) \<le> 5
   \<and> effects (snd (POST env req s)) = effects s @ new_effects (POST env req) s
   \<and> length (filter is_generate (new_effects (POST env req) s)) \<le> 5"
proof -
  have five: "maxSteps = 5"
    by (simp add: maxSteps_def)
  from generation_loop_effects[of env user model maxSteps messages responseMessages s]
  obtain new1 where
    "effects (snd (generation_loop env user model maxSteps messages responseMessages s)) = effects s @ new1"
    "length (filter is_generate new1) \<le> maxSteps"
    by blast
  then have loop: "length (filter is_generate
        (new_effects (generation_loop env user model maxSteps messages responseMessages) s)) \<le> 5"
    using five by (simp add: new_effects_eq)
  from POST_effects[of env req s] obtain new
    where n: "effects (snd (POST env req s)) = effects s @ new" "turn_property (fst (POST env req s)) new"
    by blast
  from n(1) have eq: "new_effects (POST env req) s = new"
    by (rule new_effects_eq)
  from n(2) have "length (filter is_generate new) \<le> 5"
    using five by (simp add: turn_property_def)
  with five loop n(1) eq show ?thesis by simp
qed

text \<open>The bound is reached by a model that asks for a tool in every round.\<close>

lemma five_rounds_reached:
  "length (filter is_generate (effects (snd (POST weather_every_round_env demo_request start)))) = 5"
  by (simp add: demo_defs POST_def POST_generate_def saveUserMessage_def streamText_main_def
      onFinish_def maxSteps_def eval_nat_numeral getWeather_execute_def generate_def
      assistant_message_def prog_defs)

section \<open>The close of the multiplexer\<close>





text \<open>
  When the provider fails, the \<^verbatim>\<open>catch\<close> of \<^verbatim>\<open>POST\<close> logs the exception and rethrows it;
  the multiplexer created at 4.7 is left as it is.
\<close>

lemma POST_provider_failure_run:
  "POST provider_fails_env demo_request start =
     (Throw (Error ''overloaded''),
      \<lparr>effects =
         [CallGenerateTitle (UserMessage (UserText ''hello'')),
          CallSaveChat \<lparr>sc_id = ''chat-1'', sc_userId = ''alice'', sc_title = ''Greeting''\<rparr>,
          CallSaveMessages ''chat-1''
            [\<lparr>msg_id = ''id-'', msg_chat_id = ''chat-1'', msg_role = ''user'',
              msg_content = ''hello'', msg_created_at = ''t-''\<rparr>],
          NewStreamData,
          Generate ''gpt-4o'' ''You are a friendly assistant.'' [UserMessage (UserText ''hello'')],
          ConsoleError ''Error in chat route:'' (Error ''overloaded'')],
       uuids_taken = 1, clock_reads = 1\<rparr>)"
  by (simp add: demo_defs POST_def POST_generate_def saveUserMessage_def streamText_main_def
      maxSteps_def eval_nat_numeral generate_def prog_defs)



end
